theory Spec2Isabelle
  imports Main "HOL-Library.AList"
begin

section \<open>Data model (rule-engine/src/types)\<close>

text \<open>
  The rule engine is TypeScript.  Numbers are modelled as \<open>int\<close>, array indices as
  \<open>nat\<close>, identifiers as \<open>string\<close>.  A \<open>Map\<close> is an association list in insertion
  order (\<open>map_of\<close> is \<open>Map.get\<close>, \<open>AList.update\<close> is \<open>Map.set\<close>).  The key of a tile,
  \<open>coordToKey(c)\<close> = "q,r", is an injective print of the coordinate pair, so the tile
  map is keyed by the coordinate itself.  The nested objects \<open>buildings\<close> and
  \<open>specialCards\<close> of a player are flattened into the player record.
\<close>

datatype ResourceType = Wood | Brick | Wool | Wheat | Ore

datatype TerrainType = Forest | Pasture | Field | Hill | Mountain | Desert

datatype DevelopmentCardType = Knight | RoadBuilding | Invention | Monopoly | VictoryPoint

datatype GamePhase = SETUP_ROUND_1 | SETUP_ROUND_2 | PRODUCTION | ACTION | GAME_OVER

type_synonym HexCoordinate = "int \<times> int"

datatype BuildingType = Settlement | City

datatype PortType = Generic | Specific ResourceType

record Building =
  building_type :: BuildingType
  building_playerId :: string

record Port =
  port_type :: PortType
  ratio :: int

record Intersection =
  intersection_id :: string
  hexes :: "HexCoordinate list"
  intersection_edges :: "string list"
  building :: "Building option"
  port :: "Port option"

record Edge =
  edge_id :: string
  edge_intersections :: "string \<times> string"
  road :: "string option"

record Tile =
  coordinate :: HexCoordinate
  terrain :: TerrainType
  numberDisc :: "int option"
  hasRobber :: bool

type_synonym Resources = "ResourceType \<Rightarrow> int"

type_synonym PartialResources = "ResourceType \<Rightarrow> int option"

type_synonym DevelopmentCards = "DevelopmentCardType \<Rightarrow> int"

record Player =
  player_id :: string
  color :: string
  resources :: Resources
  developmentCards :: DevelopmentCards
  roads :: "string list"
  settlements :: "string list"
  cities :: "string list"
  longestRoad :: bool
  largestArmy :: bool
  knightsPlayed :: int
  victoryPoints :: int
  canPlayDevCard :: bool

record GameBoard =
  tiles :: "(HexCoordinate \<times> Tile) list"
  intersections :: "(string \<times> Intersection) list"
  edges :: "(string \<times> Edge) list"
  robberLocation :: HexCoordinate

record GameState =
  game_id :: string
  phase :: GamePhase
  currentPlayerIndex :: nat
  players :: "Player list"
  board :: GameBoard
  developmentCardDeck :: "DevelopmentCardType list"
  diceRoll :: "(int \<times> int) option"
  turn :: int
  winner :: "string option"

record TradeOffer =
  offering :: PartialResources
  requesting :: PartialResources
  fromPlayerId :: string
  toPlayerId :: "string option"

text \<open>\<open>Array.prototype.findIndex\<close>: the first index whose element satisfies the
  predicate, \<open>None\<close> for the source's \<open>-1\<close>.  \<open>Array.prototype.find\<close> is \<open>List.find\<close>.\<close>

fun findIndex :: "('a \<Rightarrow> bool) \<Rightarrow> 'a list \<Rightarrow> nat option" where
  "findIndex P [] = None"
| "findIndex P (x # xs) = (if P x then Some 0 else map_option Suc (findIndex P xs))"

definition findPlayer :: "GameState \<Rightarrow> string \<Rightarrow> Player option" where
  "findPlayer gameState playerId = find (\<lambda>p. player_id p = playerId) (players gameState)"

definition findPlayerIndex :: "GameState \<Rightarrow> string \<Rightarrow> nat option" where
  "findPlayerIndex gameState playerId = findIndex (\<lambda>p. player_id p = playerId) (players gameState)"

section \<open>Victory subsystem: the longest-road search\<close>

type_synonym RoadGraph = "(string \<times> string list) list"

text \<open>\<open>graph.get(currentRoad) || []\<close>\<close>

definition neighborsOf :: "RoadGraph \<Rightarrow> string \<Rightarrow> string list" where
  "neighborsOf graph currentRoad = (case map_of graph currentRoad of None \<Rightarrow> [] | Some ns \<Rightarrow> ns)"

definition graphNodes :: "RoadGraph \<Rightarrow> string set" where
  "graphNodes graph = fst ` set graph \<union> (\<Union>(k, ns) \<in> set graph. set ns)"

text \<open>
  \<open>depthFirstSearchLongestPath\<close> with its \<open>visited\<close> set threaded through the calls as
  the source mutates it: \<open>visited.add(currentRoad)\<close> on entry, the loop over the
  neighbours (each recursive call receives and returns the same set object), and
  \<open>visited.delete(currentRoad)\<close> before returning.  Recursion depth is bounded by fuel;
  \<open>None\<close> means the fuel ran out.
\<close>

fun visitNeighbors ::
  "(string \<Rightarrow> string set \<Rightarrow> (int \<times> string set) option) \<Rightarrow> string list \<Rightarrow> int \<Rightarrow> string set
     \<Rightarrow> (int \<times> string set) option" where
  "visitNeighbors search [] maxPath visited = Some (maxPath, visited)"
| "visitNeighbors search (neighborRoad # rest) maxPath visited =
     (if neighborRoad \<notin> visited then
        (case search neighborRoad visited of
           None \<Rightarrow> None
         | Some (pathLength, visited') \<Rightarrow> visitNeighbors search rest (max maxPath pathLength) visited')
      else visitNeighbors search rest maxPath visited)"

fun markedSearch :: "nat \<Rightarrow> RoadGraph \<Rightarrow> string \<Rightarrow> string set \<Rightarrow> (int \<times> string set) option" where
  "markedSearch 0 graph currentRoad visited = None"
| "markedSearch (Suc fuel) graph currentRoad visited =
     (case visitNeighbors (\<lambda>n v. markedSearch fuel graph n v) (neighborsOf graph currentRoad) 0
             (insert currentRoad visited) of
        None \<Rightarrow> None
      | Some (maxPath, visited') \<Rightarrow> Some (maxPath + 1, visited' - {currentRoad}))"

definition searchWeight ::
  "(RoadGraph \<times> string \<times> string set) + (RoadGraph \<times> string list \<times> string set \<times> int) \<Rightarrow> nat \<times> nat" where
  "searchWeight x = (case x of
      Inl (graph, currentRoad, visited) \<Rightarrow>
        (if neighborsOf graph currentRoad = [] then 1
         else 2 * card (graphNodes graph - insert currentRoad visited) + 3, 0)
    | Inr (graph, ns, visited, m) \<Rightarrow>
        (if ns = [] then 0 else 2 * card (graphNodes graph - visited) + 2, length ns))"

text \<open>
  The same search as a total function: since every call returns the set it was given,
  each neighbour is searched with \<open>visited \<union> {currentRoad}\<close>.  \<open>searchNeighbors\<close> is the
  \<open>for (const neighborRoad of neighbors)\<close> loop with its accumulator \<open>maxPath\<close>.
\<close>

function depthFirstSearchLongestPath :: "RoadGraph \<Rightarrow> string \<Rightarrow> string set \<Rightarrow> int"
  and searchNeighbors :: "RoadGraph \<Rightarrow> string list \<Rightarrow> string set \<Rightarrow> int \<Rightarrow> int" where
  "depthFirstSearchLongestPath graph currentRoad visited =
     searchNeighbors graph (neighborsOf graph currentRoad) (insert currentRoad visited) 0 + 1"
| "searchNeighbors graph [] visited maxPath = maxPath"
| "searchNeighbors graph (neighborRoad # rest) visited maxPath =
     (if neighborRoad \<notin> visited
      then searchNeighbors graph rest visited
             (max maxPath (depthFirstSearchLongestPath graph neighborRoad visited))
      else searchNeighbors graph rest visited maxPath)"
  by pat_completeness auto

section \<open>Resource subsystem (rule-engine/src/resources.ts)\<close>

text \<open>
  Every operation of the engine starts with \<open>newState = { ...gameState }\<close>, a shallow
  copy: the copy has top-level fields of its own, but its \<open>players\<close>, \<open>board\<close> and
  \<open>developmentCardDeck\<close> are the very objects of the input.  The operations are therefore
  modelled as state transformers that thread one state value; what an assignment to a
  nested object does to the caller's state is read off with \<open>inputAfter\<close>.  A raised
  \<open>Error\<close> is \<open>Failure\<close> with the message and the state of the shared objects at the
  moment of the throw.
\<close>

datatype Result = Failure string GameState | Success GameState

datatype Validation = Valid | Invalid string

text \<open>Sources of \<open>Math.random()\<close>: the two dice and the index drawn by the thief.\<close>

record Random =
  die1 :: int
  die2 :: int
  stealIndex :: nat

definition isSuccess :: "Result \<Rightarrow> bool" where
  "isSuccess r = (case r of Success _ \<Rightarrow> True | Failure _ _ \<Rightarrow> False)"

definition sharedAfter :: "Result \<Rightarrow> GameState" where
  "sharedAfter r = (case r of Success s \<Rightarrow> s | Failure _ s \<Rightarrow> s)"

text \<open>The caller's state object after a call: its own top-level fields, and the shared
  nested objects as the call left them.\<close>

definition inputAfter :: "GameState \<Rightarrow> Result \<Rightarrow> GameState" where
  "inputAfter gameState r =
     gameState\<lparr>players := players (sharedAfter r), board := board (sharedAfter r),
               developmentCardDeck := developmentCardDeck (sharedAfter r)\<rparr>"

definition updatePlayerAt :: "nat \<Rightarrow> (Player \<Rightarrow> Player) \<Rightarrow> GameState \<Rightarrow> GameState" where
  "updatePlayerAt i f gameState = gameState\<lparr>players := (players gameState)[i := f (players gameState ! i)]\<rparr>"

definition resourceKinds :: "ResourceType list" where
  "resourceKinds = [Wood, Brick, Wool, Wheat, Ore]"

text \<open>\<open>Object.entries\<close> of a \<open>Partial<Resources>\<close>: the keys that are present.\<close>

definition entries :: "PartialResources \<Rightarrow> (ResourceType \<times> int) list" where
  "entries m = concat (map (\<lambda>r. case m r of None \<Rightarrow> [] | Some a \<Rightarrow> [(r, a)]) resourceKinds)"

definition getTotalResources :: "Resources \<Rightarrow> int" where
  "getTotalResources r = r Wood + r Brick + r Wool + r Wheat + r Ore"

definition hasResources :: "Resources \<Rightarrow> PartialResources \<Rightarrow> bool" where
  "hasResources playerResources required = list_all (\<lambda>(resource, amount). playerResources resource \<ge> amount) (entries required)"

definition subtractResources :: "Resources \<Rightarrow> PartialResources \<Rightarrow> Resources" where
  "subtractResources playerResources toSubtract =
     fold (\<lambda>(resource, amount) result.
             if amount > 0 then result(resource := max 0 (result resource - amount)) else result)
          (entries toSubtract) playerResources"

definition addResources :: "Resources \<Rightarrow> PartialResources \<Rightarrow> Resources" where
  "addResources playerResources toAdd =
     fold (\<lambda>(resource, amount) result.
             if amount > 0 then result(resource := result resource + amount) else result)
          (entries toAdd) playerResources"

text \<open>\<open>terrainToResource\<close> raises for the desert: \<open>None\<close>.\<close>

fun terrainToResource :: "TerrainType \<Rightarrow> ResourceType option" where
  "terrainToResource Forest = Some Wood"
| "terrainToResource Hill = Some Brick"
| "terrainToResource Pasture = Some Wool"
| "terrainToResource Field = Some Wheat"
| "terrainToResource Mountain = Some Ore"
| "terrainToResource Desert = None"

text \<open>The private \<open>ResourceManager.handleSevenRolled\<close>: a new player array whose elements
  are the players or field-for-field copies of them.\<close>

definition resourceHandleSevenRolled :: "GameState \<Rightarrow> GameState" where
  "resourceHandleSevenRolled gameState =
     gameState\<lparr>players := map (\<lambda>player. if getTotalResources (resources player) > 7 then player else player)
                              (players gameState)\<rparr>"

definition isAdjacentTo :: "Intersection \<Rightarrow> HexCoordinate \<Rightarrow> bool" where
  "isAdjacentTo intersection c = list_ex (\<lambda>hexCoord. fst hexCoord = fst c \<and> snd hexCoord = snd c) (hexes intersection)"

text \<open>The body of the inner \<open>forEach\<close> of \<open>distributeResources\<close>: one intersection seen
  from one producing tile.\<close>

definition creditIntersection :: "HexCoordinate \<Rightarrow> ResourceType \<Rightarrow> Intersection \<Rightarrow> GameState \<Rightarrow> GameState" where
  "creditIntersection tileCoord resourceType intersection newState =
     (case building intersection of
        None \<Rightarrow> newState
      | Some b \<Rightarrow>
          if isAdjacentTo intersection tileCoord then
            (case findPlayerIndex newState (building_playerId b) of
               None \<Rightarrow> newState
             | Some playerIndex \<Rightarrow>
                 updatePlayerAt playerIndex
                   (\<lambda>p. p\<lparr>resources := (resources p)(resourceType :=
                        resources p resourceType + (if building_type b = City then 2 else 1))\<rparr>) newState)
          else newState)"

text \<open>The body of the outer \<open>forEach\<close>: one producing tile coordinate.  The desert is
  skipped before \<open>terrainToResource\<close> is called, so its throw is never reached.\<close>

definition produceTile :: "GameState \<Rightarrow> HexCoordinate \<Rightarrow> GameState \<Rightarrow> GameState" where
  "produceTile gameState tileCoord newState =
     (case map_of (tiles (board gameState)) tileCoord of
        None \<Rightarrow> newState
      | Some tile \<Rightarrow>
          if terrain tile = Desert then newState
          else (case terrainToResource (terrain tile) of
                  None \<Rightarrow> newState
                | Some resourceType \<Rightarrow>
                    fold (creditIntersection tileCoord resourceType)
                         (map snd (intersections (board gameState))) newState))"

definition producingTiles :: "GameState \<Rightarrow> int \<Rightarrow> HexCoordinate list" where
  "producingTiles gameState diceSum =
     map coordinate (filter (\<lambda>tile. numberDisc tile = Some diceSum \<and> \<not> hasRobber tile)
                            (map snd (tiles (board gameState))))"

definition distributeResources :: "GameState \<Rightarrow> int \<Rightarrow> GameState" where
  "distributeResources gameState diceSum =
     (if diceSum = 7 then resourceHandleSevenRolled gameState
      else fold (produceTile gameState) (producingTiles gameState diceSum) gameState)"

definition sumAmounts :: "PartialResources \<Rightarrow> int" where
  "sumAmounts m = fold (\<lambda>(r, amount) sum. sum + amount) (entries m) 0"

definition validateDiscardSelection :: "Resources \<Rightarrow> PartialResources \<Rightarrow> int \<Rightarrow> bool" where
  "validateDiscardSelection currentResources toDiscard requiredAmount =
     (if \<not> hasResources currentResources toDiscard then False
      else sumAmounts toDiscard = requiredAmount)"

definition discardResources :: "GameState \<Rightarrow> string \<Rightarrow> PartialResources \<Rightarrow> Result" where
  "discardResources gameState playerId toDiscard =
     (case findPlayerIndex gameState playerId of
        None \<Rightarrow> Failure ''Player not found'' gameState
      | Some playerIndex \<Rightarrow>
          let player = players gameState ! playerIndex;
              totalResources = getTotalResources (resources player)
          in if totalResources \<le> 7 then Failure ''Player doesn't need to discard resources'' gameState
             else if \<not> validateDiscardSelection (resources player) toDiscard (totalResources div 2)
             then Failure ''Invalid discard selection'' gameState
             else Success (updatePlayerAt playerIndex
                    (\<lambda>p. p\<lparr>resources := subtractResources (resources player) toDiscard\<rparr>) gameState))"

text \<open>The unit cards of a hand, in key order; a count below one contributes nothing.\<close>

definition availableResources :: "Resources \<Rightarrow> ResourceType list" where
  "availableResources r = concat (map (\<lambda>resource. replicate (nat (r resource)) resource) resourceKinds)"

definition stealRandomResource :: "Random \<Rightarrow> string \<Rightarrow> string \<Rightarrow> GameState \<Rightarrow> Result" where
  "stealRandomResource rnd fromId toId gameState =
     (case (findPlayerIndex gameState fromId, findPlayerIndex gameState toId) of
        (Some fromPlayerIndex, Some toPlayerIndex) \<Rightarrow>
          let available = availableResources (resources (players gameState ! fromPlayerIndex))
          in if available = [] then Success gameState
             else
               let stolenResource = available ! (stealIndex rnd mod length available);
                   s1 = updatePlayerAt fromPlayerIndex
                          (\<lambda>p. p\<lparr>resources := (resources p)(stolenResource := resources p stolenResource - 1)\<rparr>)
                          gameState
               in Success (updatePlayerAt toPlayerIndex
                          (\<lambda>p. p\<lparr>resources := (resources p)(stolenResource := resources p stolenResource + 1)\<rparr>)
                          s1)
      | _ \<Rightarrow> Failure ''Invalid player IDs for stealing'' gameState)"

section \<open>Trading subsystem (rule-engine/src/trading.ts)\<close>

text \<open>Truthiness of an optional string: \<open>undefined\<close> and the empty string are falsy.\<close>

definition truthy :: "string option \<Rightarrow> bool" where
  "truthy x = (case x of None \<Rightarrow> False | Some s \<Rightarrow> s \<noteq> [])"

definition getAccessiblePorts :: "GameState \<Rightarrow> string \<Rightarrow> Port list" where
  "getAccessiblePorts gameState playerId =
     (case findPlayer gameState playerId of
        None \<Rightarrow> []
      | Some player \<Rightarrow>
          concat (map (\<lambda>intersectionId.
                    case map_of (intersections (board gameState)) intersectionId of
                      None \<Rightarrow> []
                    | Some intersection \<Rightarrow> (case port intersection of None \<Rightarrow> [] | Some p \<Rightarrow> [p]))
                  (settlements player @ cities player)))"

definition getBestTradeRatio :: "Port list \<Rightarrow> ResourceType \<Rightarrow> int" where
  "getBestTradeRatio accessiblePorts resourceType =
     (let bestRatio = (case find (\<lambda>p. port_type p = Specific resourceType) accessiblePorts of
                         None \<Rightarrow> 4
                       | Some specificPort \<Rightarrow> min 4 (ratio specificPort))
      in fold (\<lambda>p best. min best (ratio p)) (filter (\<lambda>p. port_type p = Generic) accessiblePorts) bestRatio)"

text \<open>The reason of a ratio failure interpolates the three numbers; the model keeps its
  fixed prefix.\<close>

definition validateBankTrade :: "GameState \<Rightarrow> TradeOffer \<Rightarrow> Validation" where
  "validateBankTrade gameState offer =
     (case findPlayer gameState (fromPlayerId offer) of
        None \<Rightarrow> Invalid ''Player not found''
      | Some player \<Rightarrow>
          if \<not> hasResources (resources player) (offering offer)
          then Invalid ''Player does not have offered resources''
          else
            let accessiblePorts = getAccessiblePorts gameState (fromPlayerId offer);
                offeringTypes = filter (\<lambda>(r, amount). amount > 0) (entries (offering offer));
                requestingTypes = filter (\<lambda>(r, amount). amount > 0) (entries (requesting offer))
            in (case (offeringTypes, requestingTypes) of
                  ([(offeringResource, offeringAmount)], [(requestingResource, requestingAmount)]) \<Rightarrow>
                    if offeringAmount < getBestTradeRatio accessiblePorts offeringResource * requestingAmount
                    then Invalid ''Invalid trade ratio''
                    else Valid
                | _ \<Rightarrow> Invalid ''Bank trades must be one resource type for one resource type''))"

definition validatePlayerTrade :: "GameState \<Rightarrow> TradeOffer \<Rightarrow> Validation" where
  "validatePlayerTrade gameState offer =
     (case findPlayer gameState (fromPlayerId offer) of
        None \<Rightarrow> Invalid ''From player not found''
      | Some fromPlayer \<Rightarrow>
          if truthy (toPlayerId offer) \<and> findPlayer gameState (the (toPlayerId offer)) = None
          then Invalid ''To player not found''
          else if \<not> hasResources (resources fromPlayer) (offering offer)
          then Invalid ''Player does not have offered resources''
          else if \<not> truthy (toPlayerId offer) then validateBankTrade gameState offer
          else Valid)"

definition tradeHand :: "PartialResources \<Rightarrow> PartialResources \<Rightarrow> Player \<Rightarrow> Player" where
  "tradeHand gives gets p = p\<lparr>resources := addResources (subtractResources (resources p) gives) gets\<rparr>"

definition executeTrade :: "GameState \<Rightarrow> TradeOffer \<Rightarrow> Result" where
  "executeTrade gameState offer =
     (case validatePlayerTrade gameState offer of
        Invalid e \<Rightarrow> Failure e gameState
      | Valid \<Rightarrow>
          (case findPlayerIndex gameState (fromPlayerId offer) of
             None \<Rightarrow> Failure ''TypeError'' gameState
           | Some fromPlayerIndex \<Rightarrow>
               let s1 = updatePlayerAt fromPlayerIndex (tradeHand (offering offer) (requesting offer)) gameState
               in if truthy (toPlayerId offer) then
                    (case findPlayerIndex s1 (the (toPlayerId offer)) of
                       None \<Rightarrow> Failure ''TypeError'' s1
                     | Some toPlayerIndex \<Rightarrow>
                         Success (updatePlayerAt toPlayerIndex
                                    (tradeHand (requesting offer) (offering offer)) s1))
                  else Success s1))"


section \<open>Building subsystem (rule-engine/src/building.ts)\<close>

definition costs :: "int \<Rightarrow> int \<Rightarrow> int \<Rightarrow> int \<Rightarrow> int \<Rightarrow> PartialResources" where
  "costs w b wl wh orr = (\<lambda>r. Some (case r of Wood \<Rightarrow> w | Brick \<Rightarrow> b | Wool \<Rightarrow> wl | Wheat \<Rightarrow> wh | Ore \<Rightarrow> orr))"

definition BUILDING_COSTS_road :: PartialResources where
  "BUILDING_COSTS_road = costs 1 1 0 0 0"

definition BUILDING_COSTS_settlement :: PartialResources where
  "BUILDING_COSTS_settlement = costs 1 1 1 1 0"

definition BUILDING_COSTS_city :: PartialResources where
  "BUILDING_COSTS_city = costs 0 0 0 2 3"

definition BUILDING_COSTS_developmentCard :: PartialResources where
  "BUILDING_COSTS_developmentCard = costs 0 0 1 1 1"

definition inSetup :: "GameState \<Rightarrow> bool" where
  "inSetup gameState = (phase gameState = SETUP_ROUND_1 \<or> phase gameState = SETUP_ROUND_2)"

definition getIntersection :: "GameState \<Rightarrow> string \<Rightarrow> Intersection option" where
  "getIntersection gameState intersectionId = map_of (intersections (board gameState)) intersectionId"

definition getEdge :: "GameState \<Rightarrow> string \<Rightarrow> Edge option" where
  "getEdge gameState edgeId = map_of (edges (board gameState)) edgeId"

definition buildingOwner :: "Intersection \<Rightarrow> string option" where
  "buildingOwner intersection = map_option building_playerId (building intersection)"

definition endpoints :: "Edge \<Rightarrow> string list" where
  "endpoints edge = [fst (edge_intersections edge), snd (edge_intersections edge)]"

definition isRoadConnected :: "GameState \<Rightarrow> string \<Rightarrow> string \<Rightarrow> bool" where
  "isRoadConnected gameState playerId edgeId =
     (case getEdge gameState edgeId of
        None \<Rightarrow> False
      | Some edge \<Rightarrow>
          list_ex (\<lambda>intersectionId.
            case getIntersection gameState intersectionId of
              None \<Rightarrow> False
            | Some intersection \<Rightarrow>
                buildingOwner intersection = Some playerId \<or>
                list_ex (\<lambda>connectedEdgeId.
                   connectedEdgeId \<noteq> edgeId \<and>
                   (case getEdge gameState connectedEdgeId of
                      None \<Rightarrow> False
                    | Some connectedEdge \<Rightarrow> road connectedEdge = Some playerId))
                  (intersection_edges intersection))
            (endpoints edge))"

definition isSettlementConnected :: "GameState \<Rightarrow> string \<Rightarrow> string \<Rightarrow> bool" where
  "isSettlementConnected gameState playerId intersectionId =
     (case getIntersection gameState intersectionId of
        None \<Rightarrow> False
      | Some intersection \<Rightarrow>
          list_ex (\<lambda>edgeId. case getEdge gameState edgeId of
                               None \<Rightarrow> False
                             | Some edge \<Rightarrow> road edge = Some playerId)
                  (intersection_edges intersection))"

definition checkDistanceRule :: "GameState \<Rightarrow> string \<Rightarrow> Validation" where
  "checkDistanceRule gameState intersectionId =
     (case getIntersection gameState intersectionId of
        None \<Rightarrow> Invalid ''Invalid intersection''
      | Some intersection \<Rightarrow>
          if list_ex (\<lambda>edgeId.
               case getEdge gameState edgeId of
                 None \<Rightarrow> False
               | Some edge \<Rightarrow>
                   (case find (\<lambda>i. i \<noteq> intersectionId) (endpoints edge) of
                      None \<Rightarrow> False
                    | Some otherIntersectionId \<Rightarrow>
                        otherIntersectionId \<noteq> [] \<and>
                        (case getIntersection gameState otherIntersectionId of
                           None \<Rightarrow> False
                         | Some otherIntersection \<Rightarrow> building otherIntersection \<noteq> None)))
               (intersection_edges intersection)
          then Invalid ''Cannot place settlement adjacent to another building (distance rule)''
          else Valid)"

definition canBuildRoad :: "GameState \<Rightarrow> string \<Rightarrow> string \<Rightarrow> Validation" where
  "canBuildRoad gameState playerId edgeId =
     (case findPlayer gameState playerId of
        None \<Rightarrow> Invalid ''Player not found''
      | Some player \<Rightarrow>
          if \<not> inSetup gameState \<and> \<not> hasResources (resources player) BUILDING_COSTS_road
          then Invalid ''Insufficient resources for road''
          else (case getEdge gameState edgeId of
                  None \<Rightarrow> Invalid ''Invalid edge location''
                | Some edge \<Rightarrow>
                    if road edge \<noteq> None then Invalid ''Edge already has a road''
                    else if \<not> isRoadConnected gameState playerId edgeId
                    then Invalid ''Road must connect to existing road or building''
                    else Valid))"

definition canBuildSettlement :: "GameState \<Rightarrow> string \<Rightarrow> string \<Rightarrow> Validation" where
  "canBuildSettlement gameState playerId intersectionId =
     (case findPlayer gameState playerId of
        None \<Rightarrow> Invalid ''Player not found''
      | Some player \<Rightarrow>
          if \<not> inSetup gameState \<and> \<not> hasResources (resources player) BUILDING_COSTS_settlement
          then Invalid ''Insufficient resources for settlement''
          else (case getIntersection gameState intersectionId of
                  None \<Rightarrow> Invalid ''Invalid intersection location''
                | Some intersection \<Rightarrow>
                    if building intersection \<noteq> None then Invalid ''Intersection already has a building''
                    else (case checkDistanceRule gameState intersectionId of
                            Invalid e \<Rightarrow> Invalid e
                          | Valid \<Rightarrow>
                              if inSetup gameState then Valid
                              else if \<not> isSettlementConnected gameState playerId intersectionId
                              then Invalid ''Settlement must connect to your road''
                              else Valid)))"

definition canBuildCity :: "GameState \<Rightarrow> string \<Rightarrow> string \<Rightarrow> Validation" where
  "canBuildCity gameState playerId intersectionId =
     (case findPlayer gameState playerId of
        None \<Rightarrow> Invalid ''Player not found''
      | Some player \<Rightarrow>
          if \<not> hasResources (resources player) BUILDING_COSTS_city
          then Invalid ''Insufficient resources for city''
          else (case getIntersection gameState intersectionId of
                  None \<Rightarrow> Invalid ''Invalid intersection location''
                | Some intersection \<Rightarrow>
                    if building intersection \<noteq>
                         Some \<lparr>building_type = Settlement, building_playerId = playerId\<rparr>
                    then Invalid ''Can only upgrade your own settlements to cities''
                    else Valid))"

definition setRoad :: "string \<Rightarrow> string \<Rightarrow> GameState \<Rightarrow> GameState" where
  "setRoad edgeId playerId gameState =
     gameState\<lparr>board := (board gameState)\<lparr>edges :=
        AList.map_entry edgeId (\<lambda>e. e\<lparr>road := Some playerId\<rparr>) (edges (board gameState))\<rparr>\<rparr>"

definition setBuilding :: "string \<Rightarrow> BuildingType \<Rightarrow> string \<Rightarrow> GameState \<Rightarrow> GameState" where
  "setBuilding intersectionId t playerId gameState =
     gameState\<lparr>board := (board gameState)\<lparr>intersections :=
        AList.map_entry intersectionId
          (\<lambda>i. i\<lparr>building := Some \<lparr>building_type = t, building_playerId = playerId\<rparr>\<rparr>)
          (intersections (board gameState))\<rparr>\<rparr>"

definition buildRoad :: "GameState \<Rightarrow> string \<Rightarrow> string \<Rightarrow> Result" where
  "buildRoad gameState playerId edgeId =
     (case canBuildRoad gameState playerId edgeId of
        Invalid e \<Rightarrow> Failure e gameState
      | Valid \<Rightarrow>
          (case findPlayerIndex gameState playerId of
             None \<Rightarrow> Failure ''TypeError'' gameState
           | Some playerIndex \<Rightarrow>
               Success (updatePlayerAt playerIndex (\<lambda>p. p\<lparr>roads := roads p @ [edgeId]\<rparr>)
                 (setRoad edgeId playerId
                   (updatePlayerAt playerIndex
                      (\<lambda>p. p\<lparr>resources := subtractResources (resources p) BUILDING_COSTS_road\<rparr>)
                      gameState)))))"

definition buildSettlement :: "GameState \<Rightarrow> string \<Rightarrow> string \<Rightarrow> Result" where
  "buildSettlement gameState playerId intersectionId =
     (case canBuildSettlement gameState playerId intersectionId of
        Invalid e \<Rightarrow> Failure e gameState
      | Valid \<Rightarrow>
          (case findPlayerIndex gameState playerId of
             None \<Rightarrow> Failure ''TypeError'' gameState
           | Some playerIndex \<Rightarrow>
               let s1 = (if \<not> inSetup gameState
                         then updatePlayerAt playerIndex
                                (\<lambda>p. p\<lparr>resources := subtractResources (resources p) BUILDING_COSTS_settlement\<rparr>)
                                gameState
                         else gameState)
               in Success (updatePlayerAt playerIndex
                    (\<lambda>p. p\<lparr>settlements := settlements p @ [intersectionId],
                           victoryPoints := victoryPoints p + 1\<rparr>)
                    (setBuilding intersectionId Settlement playerId s1))))"

text \<open>\<open>splice(indexOf(id), 1)\<close>: when the id is not in the ledger, \<open>indexOf\<close> is \<open>-1\<close> and
  \<open>splice(-1, 1)\<close> removes the last element.\<close>

definition spliceOut :: "string \<Rightarrow> string list \<Rightarrow> string list" where
  "spliceOut x xs = (if x \<in> set xs then remove1 x xs else butlast xs)"

definition buildCity :: "GameState \<Rightarrow> string \<Rightarrow> string \<Rightarrow> Result" where
  "buildCity gameState playerId intersectionId =
     (case canBuildCity gameState playerId intersectionId of
        Invalid e \<Rightarrow> Failure e gameState
      | Valid \<Rightarrow>
          (case findPlayerIndex gameState playerId of
             None \<Rightarrow> Failure ''TypeError'' gameState
           | Some playerIndex \<Rightarrow>
               Success (updatePlayerAt playerIndex
                    (\<lambda>p. p\<lparr>settlements := spliceOut intersectionId (settlements p),
                           cities := cities p @ [intersectionId],
                           victoryPoints := victoryPoints p + 1\<rparr>)
                    (setBuilding intersectionId City playerId
                      (updatePlayerAt playerIndex
                         (\<lambda>p. p\<lparr>resources := subtractResources (resources p) BUILDING_COSTS_city\<rparr>)
                         gameState)))))"

definition getRemainingRoads :: "Player \<Rightarrow> int" where
  "getRemainingRoads player = 15 - int (length (roads player))"

section \<open>Development cards (rule-engine/src/development-cards.ts)\<close>

text \<open>\<open>gameState.players[gameState.currentPlayerIndex].id\<close>; reading \<open>id\<close> of \<open>undefined\<close>
  raises a TypeError: \<open>None\<close>.  Raised inside a validator it is \<open>Invalid\<close>, since every
  caller modelled here turns an invalid validation into a throw.\<close>

definition currentPlayerId :: "GameState \<Rightarrow> string option" where
  "currentPlayerId gameState =
     (if currentPlayerIndex gameState < length (players gameState)
      then Some (player_id (players gameState ! currentPlayerIndex gameState)) else None)"

definition canBuyDevelopmentCard :: "GameState \<Rightarrow> string \<Rightarrow> Validation" where
  "canBuyDevelopmentCard gameState playerId =
     (case findPlayer gameState playerId of
        None \<Rightarrow> Invalid ''Player not found''
      | Some player \<Rightarrow>
          if \<not> hasResources (resources player) BUILDING_COSTS_developmentCard
          then Invalid ''Insufficient resources for development card''
          else if developmentCardDeck gameState = [] then Invalid ''No development cards remaining''
          else Valid)"

text \<open>\<open>developmentCardDeck.pop()\<close> takes the last card of the array.\<close>

definition buyDevelopmentCard :: "GameState \<Rightarrow> string \<Rightarrow> Result" where
  "buyDevelopmentCard gameState playerId =
     (case canBuyDevelopmentCard gameState playerId of
        Invalid e \<Rightarrow> Failure e gameState
      | Valid \<Rightarrow>
          (case findPlayerIndex gameState playerId of
             None \<Rightarrow> Failure ''TypeError'' gameState
           | Some playerIndex \<Rightarrow>
               let drawnCard = last (developmentCardDeck gameState)
               in Success ((updatePlayerAt playerIndex
                    (\<lambda>p. p\<lparr>resources := subtractResources (resources p) BUILDING_COSTS_developmentCard,
                           developmentCards := (developmentCards p)(drawnCard := developmentCards p drawnCard + 1),
                           canPlayDevCard := False\<rparr>)
                    gameState)\<lparr>developmentCardDeck := butlast (developmentCardDeck gameState)\<rparr>)))"

definition canPlayDevelopmentCard :: "GameState \<Rightarrow> string \<Rightarrow> DevelopmentCardType \<Rightarrow> Validation" where
  "canPlayDevelopmentCard gameState playerId cardType =
     (case findPlayer gameState playerId of
        None \<Rightarrow> Invalid ''Player not found''
      | Some player \<Rightarrow>
          if developmentCards player cardType = 0 then Invalid ''Player does not have card''
          else if cardType \<noteq> VictoryPoint \<and> currentPlayerId gameState = None then Invalid ''TypeError''
          else if cardType \<noteq> VictoryPoint \<and> currentPlayerId gameState \<noteq> Some playerId
          then Invalid ''Can only play development cards on your turn''
          else if \<not> canPlayDevCard player \<and> cardType \<noteq> VictoryPoint
          then Invalid ''Cannot play development card on the same turn it was bought''
          else Valid)"

definition takeCard :: "DevelopmentCardType \<Rightarrow> Player \<Rightarrow> Player" where
  "takeCard cardType p = p\<lparr>developmentCards := (developmentCards p)(cardType := developmentCards p cardType - 1)\<rparr>"

definition placeRobber :: "HexCoordinate \<Rightarrow> (HexCoordinate \<times> Tile) list \<Rightarrow> (HexCoordinate \<times> Tile) list" where
  "placeRobber c ts = AList.map_entry c (\<lambda>t. t\<lparr>hasRobber := True\<rparr>) ts"

definition devUpdateLargestArmy :: "GameState \<Rightarrow> string \<Rightarrow> Result" where
  "devUpdateLargestArmy gameState playerId =
     (case findPlayer gameState playerId of
        None \<Rightarrow> Success gameState
      | Some player \<Rightarrow>
          if knightsPlayed player < 3 then Success gameState
          else
            let currentHolder = find largestArmy (players gameState);
                currentLargestCount = (case currentHolder of
                                         None \<Rightarrow> 2
                                       | Some h \<Rightarrow> if knightsPlayed h = 0 then 2 else knightsPlayed h)
            in if knightsPlayed player > currentLargestCount then
                 (let removed = (case currentHolder of
                       None \<Rightarrow> Some gameState
                     | Some h \<Rightarrow> map_option
                         (\<lambda>i. updatePlayerAt i (\<lambda>p. p\<lparr>largestArmy := False, victoryPoints := victoryPoints p - 2\<rparr>) gameState)
                         (findPlayerIndex gameState (player_id h)))
                  in case removed of
                       None \<Rightarrow> Failure ''TypeError'' gameState
                     | Some s1 \<Rightarrow>
                         (case findPlayerIndex s1 playerId of
                            None \<Rightarrow> Failure ''TypeError'' s1
                          | Some playerIndex \<Rightarrow>
                              Success (updatePlayerAt playerIndex
                                (\<lambda>p. p\<lparr>largestArmy := True, victoryPoints := victoryPoints p + 2\<rparr>) s1)))
               else Success gameState)"

definition playKnightCard :: "Random \<Rightarrow> GameState \<Rightarrow> string \<Rightarrow> HexCoordinate \<Rightarrow> string option \<Rightarrow> Result" where
  "playKnightCard rnd gameState playerId newRobberLocation targetPlayerId =
     (case canPlayDevelopmentCard gameState playerId Knight of
        Invalid e \<Rightarrow> Failure e gameState
      | Valid \<Rightarrow>
          (case findPlayerIndex gameState playerId of
             None \<Rightarrow> Failure ''TypeError'' gameState
           | Some playerIndex \<Rightarrow>
               let s1 = updatePlayerAt playerIndex
                          (\<lambda>p. (takeCard Knight p)\<lparr>knightsPlayed := knightsPlayed p + 1\<rparr>) gameState;
                   s2 = s1\<lparr>board := (board s1)\<lparr>
                          robberLocation := newRobberLocation,
                          tiles := placeRobber newRobberLocation
                                     (map (\<lambda>(k, t). (k, t\<lparr>hasRobber := False\<rparr>)) (tiles (board s1)))\<rparr>\<rparr>
               in if truthy targetPlayerId \<and> targetPlayerId \<noteq> Some playerId
                  then stealRandomResource rnd (the targetPlayerId) playerId s2
                  else devUpdateLargestArmy s2 playerId))"

definition buildFreeRoad :: "GameState \<Rightarrow> string \<Rightarrow> string \<Rightarrow> Result" where
  "buildFreeRoad gameState playerId edgeId =
     (case getEdge gameState edgeId of
        None \<Rightarrow> Failure ''Invalid edge location'' gameState
      | Some edge \<Rightarrow>
          if road edge \<noteq> None then Failure ''Edge already has a road'' gameState
          else if \<not> isRoadConnected gameState playerId edgeId
          then Failure ''Road must connect to existing road or building'' gameState
          else (case findPlayer gameState playerId of
                  None \<Rightarrow> Failure ''Player not found'' gameState
                | Some player \<Rightarrow>
                    if getRemainingRoads player = 0 then Failure ''No roads remaining'' gameState
                    else (case findPlayerIndex gameState playerId of
                            None \<Rightarrow> Failure ''TypeError'' gameState
                          | Some playerIndex \<Rightarrow>
                              Success (updatePlayerAt playerIndex (\<lambda>p. p\<lparr>roads := roads p @ [edgeId]\<rparr>)
                                         (setRoad edgeId playerId gameState)))))"

text \<open>\<open>isRoadConnectedForFreeBuilding\<close> repeats \<open>isRoadConnected\<close> line for line, so
  \<open>buildFreeRoad\<close> uses the latter.\<close>

definition playRoadBuildingCard :: "GameState \<Rightarrow> string \<Rightarrow> string \<times> string \<Rightarrow> Result" where
  "playRoadBuildingCard gameState playerId edgeIds =
     (case canPlayDevelopmentCard gameState playerId RoadBuilding of
        Invalid e \<Rightarrow> Failure e gameState
      | Valid \<Rightarrow>
          (case findPlayerIndex gameState playerId of
             None \<Rightarrow> Failure ''TypeError'' gameState
           | Some playerIndex \<Rightarrow>
               (case buildFreeRoad (updatePlayerAt playerIndex (takeCard RoadBuilding) gameState)
                       playerId (fst edgeIds) of
                  Failure e s \<Rightarrow> Failure (''Cannot build first road: Error: '' @ e) s
                | Success s1 \<Rightarrow>
                    if snd edgeIds \<noteq> fst edgeIds then
                      (case buildFreeRoad s1 playerId (snd edgeIds) of
                         Failure e s \<Rightarrow> Failure (''Cannot build second road: Error: '' @ e) s
                       | Success s2 \<Rightarrow> Success s2)
                    else Success s1)))"

definition inventionResources :: "ResourceType \<times> ResourceType \<Rightarrow> PartialResources" where
  "inventionResources chosen =
     fold (\<lambda>resourceType m. m(resourceType \<mapsto> (case m resourceType of None \<Rightarrow> 0 | Some a \<Rightarrow> a) + 1))
          [fst chosen, snd chosen] Map.empty"

definition playInventionCard :: "GameState \<Rightarrow> string \<Rightarrow> ResourceType \<times> ResourceType \<Rightarrow> Result" where
  "playInventionCard gameState playerId chosen =
     (case canPlayDevelopmentCard gameState playerId Invention of
        Invalid e \<Rightarrow> Failure e gameState
      | Valid \<Rightarrow>
          (case findPlayerIndex gameState playerId of
             None \<Rightarrow> Failure ''TypeError'' gameState
           | Some playerIndex \<Rightarrow>
               Success (updatePlayerAt playerIndex
                 (\<lambda>p. (takeCard Invention p)\<lparr>resources := addResources (resources p) (inventionResources chosen)\<rparr>)
                 gameState)))"

definition playMonopolyCard :: "GameState \<Rightarrow> string \<Rightarrow> ResourceType \<Rightarrow> Result" where
  "playMonopolyCard gameState playerId resourceType =
     (case canPlayDevelopmentCard gameState playerId Monopoly of
        Invalid e \<Rightarrow> Failure e gameState
      | Valid \<Rightarrow>
          (case findPlayerIndex gameState playerId of
             None \<Rightarrow> Failure ''TypeError'' gameState
           | Some playerIndex \<Rightarrow>
               let ps = players (updatePlayerAt playerIndex (takeCard Monopoly) gameState);
                   others = filter (\<lambda>i. i \<noteq> playerIndex) [0 ..< length ps];
                   totalStolen = fold (\<lambda>i total. total + resources (ps ! i) resourceType) others 0;
                   emptied = fold (\<lambda>i qs. qs[i := (qs ! i)\<lparr>resources := (resources (qs ! i))(resourceType := 0)\<rparr>])
                                  others ps
               in Success (updatePlayerAt playerIndex
                    (\<lambda>p. p\<lparr>resources := (resources p)(resourceType := resources p resourceType + totalStolen)\<rparr>)
                    (gameState\<lparr>players := emptied\<rparr>))))"

definition playVictoryPointCard :: "GameState \<Rightarrow> string \<Rightarrow> Result" where
  "playVictoryPointCard gameState playerId =
     (case canPlayDevelopmentCard gameState playerId VictoryPoint of
        Invalid e \<Rightarrow> Failure e gameState
      | Valid \<Rightarrow>
          (case findPlayerIndex gameState playerId of
             None \<Rightarrow> Failure ''TypeError'' gameState
           | Some playerIndex \<Rightarrow>
               Success (updatePlayerAt playerIndex
                 (\<lambda>p. (takeCard VictoryPoint p)\<lparr>victoryPoints := victoryPoints p + 1\<rparr>) gameState)))"

definition resetPlayDevCardFlag :: "GameState \<Rightarrow> GameState" where
  "resetPlayDevCardFlag gameState =
     gameState\<lparr>players := map (\<lambda>p. p\<lparr>canPlayDevCard := True\<rparr>) (players gameState)\<rparr>"


section \<open>Robber subsystem (rule-engine/src/robber.ts)\<close>

definition canMoveRobber :: "GameState \<Rightarrow> string \<Rightarrow> HexCoordinate \<Rightarrow> Validation" where
  "canMoveRobber gameState playerId newLocation =
     (case findPlayer gameState playerId of
        None \<Rightarrow> Invalid ''Player not found''
      | Some player \<Rightarrow>
          if currentPlayerId gameState = None then Invalid ''TypeError''
          else if currentPlayerId gameState \<noteq> Some playerId then Invalid ''Not your turn''
          else (case map_of (tiles (board gameState)) newLocation of
                  None \<Rightarrow> Invalid ''Invalid hex location''
                | Some targetTile \<Rightarrow>
                    if fst (robberLocation (board gameState)) = fst newLocation \<and>
                       snd (robberLocation (board gameState)) = snd newLocation
                    then Invalid ''Robber must move to a different hex''
                    else Valid))"

definition playerHasAdjacentBuilding :: "GameState \<Rightarrow> string \<Rightarrow> HexCoordinate \<Rightarrow> bool" where
  "playerHasAdjacentBuilding gameState playerId hexLocation =
     list_ex (\<lambda>intersection. isAdjacentTo intersection hexLocation \<and> buildingOwner intersection = Some playerId)
             (map snd (intersections (board gameState)))"

definition canStealFromPlayer :: "GameState \<Rightarrow> string \<Rightarrow> string \<Rightarrow> HexCoordinate \<Rightarrow> Validation" where
  "canStealFromPlayer gameState theftPlayerId targetPlayerId location =
     (if theftPlayerId = targetPlayerId then Invalid ''Cannot steal from yourself''
      else (case findPlayer gameState targetPlayerId of
              None \<Rightarrow> Invalid ''Target player not found''
            | Some targetPlayer \<Rightarrow>
                if getTotalResources (resources targetPlayer) = 0
                then Invalid ''Target player has no resources to steal''
                else if \<not> playerHasAdjacentBuilding gameState targetPlayerId location
                then Invalid ''Target player has no buildings adjacent to robber''
                else Valid))"

definition moveRobber :: "Random \<Rightarrow> GameState \<Rightarrow> string \<Rightarrow> HexCoordinate \<Rightarrow> string option \<Rightarrow> Result" where
  "moveRobber rnd gameState playerId newLocation targetPlayerId =
     (case canMoveRobber gameState playerId newLocation of
        Invalid e \<Rightarrow> Failure e gameState
      | Valid \<Rightarrow>
          let b = board gameState;
              newState = gameState\<lparr>board := b\<lparr>
                 tiles := placeRobber newLocation
                            (AList.map_entry (robberLocation b) (\<lambda>t. t\<lparr>hasRobber := False\<rparr>) (tiles b)),
                 robberLocation := newLocation\<rparr>\<rparr>
          in if truthy targetPlayerId \<and> targetPlayerId \<noteq> Some playerId
             then (case canStealFromPlayer newState playerId (the targetPlayerId) newLocation of
                     Valid \<Rightarrow> stealRandomResource rnd (the targetPlayerId) playerId newState
                   | Invalid e \<Rightarrow> Success newState)
             else Success newState)"

definition mustDiscardResources :: "GameState \<Rightarrow> Player list" where
  "mustDiscardResources gameState = filter (\<lambda>player. getTotalResources (resources player) > 7) (players gameState)"

definition isDiscardPhaseComplete :: "GameState \<Rightarrow> bool" where
  "isDiscardPhaseComplete gameState = (length (mustDiscardResources gameState) = 0)"

text \<open>\<open>RobberManager.handleSevenRolled\<close> returns a shallow copy of the state (and the list
  of players who must discard, which the orchestrator does not use).\<close>

definition handleSevenRolled :: "GameState \<Rightarrow> GameState" where
  "handleSevenRolled gameState = gameState"

section \<open>Victory subsystem (rule-engine/src/victory.ts)\<close>

definition calculateVictoryPoints :: "Player \<Rightarrow> int" where
  "calculateVictoryPoints player =
     (let points = int (length (settlements player)) * 1 + int (length (cities player)) * 2
                   + (if longestRoad player then 2 else 0) + (if largestArmy player then 2 else 0)
      in points + (victoryPoints player - int (length (settlements player))
                   - int (length (cities player)) * 2
                   - (if longestRoad player then 2 else 0) - (if largestArmy player then 2 else 0)))"

definition getWinner :: "GameState \<Rightarrow> Player option" where
  "getWinner gameState = find (\<lambda>player. calculateVictoryPoints player \<ge> 10) (players gameState)"

definition isPathBlockedByOpponent :: "GameState \<Rightarrow> string \<Rightarrow> string \<Rightarrow> bool" where
  "isPathBlockedByOpponent gameState intersectionId playerId =
     (case getIntersection gameState intersectionId of
        None \<Rightarrow> False
      | Some intersection \<Rightarrow>
          (case building intersection of
             None \<Rightarrow> False
           | Some b \<Rightarrow> building_playerId b \<noteq> playerId))"

text \<open>The roads that \<open>buildRoadGraph\<close> pushes for one endpoint of one road.  The owner is
  read as \<open>edge.road!.playerId\<close> each time a candidate passes the first test; on an edge
  without a road that read raises a TypeError: \<open>None\<close>.\<close>

definition connectedAt :: "GameState \<Rightarrow> string list \<Rightarrow> string \<Rightarrow> Edge \<Rightarrow> string \<Rightarrow> string list option" where
  "connectedAt gameState roadIds roadId edge intersectionId =
     (case getIntersection gameState intersectionId of
        None \<Rightarrow> Some []
      | Some intersection \<Rightarrow>
          let candidates = filter (\<lambda>connectedEdgeId. connectedEdgeId \<noteq> roadId \<and> connectedEdgeId \<in> set roadIds)
                                  (intersection_edges intersection)
          in if candidates = [] then Some []
             else (case road edge of
                     None \<Rightarrow> None
                   | Some owner \<Rightarrow>
                       Some (if isPathBlockedByOpponent gameState intersectionId owner then [] else candidates)))"

definition connectedRoads :: "GameState \<Rightarrow> string list \<Rightarrow> string \<Rightarrow> Edge \<Rightarrow> string list option" where
  "connectedRoads gameState roadIds roadId edge =
     (case connectedAt gameState roadIds roadId edge (fst (edge_intersections edge)) of
        None \<Rightarrow> None
      | Some xs \<Rightarrow>
          (case connectedAt gameState roadIds roadId edge (snd (edge_intersections edge)) of
             None \<Rightarrow> None
           | Some ys \<Rightarrow> Some (xs @ ys)))"

fun connectRoads :: "GameState \<Rightarrow> string list \<Rightarrow> string list \<Rightarrow> RoadGraph \<Rightarrow> RoadGraph option" where
  "connectRoads gameState roadIds [] graph = Some graph"
| "connectRoads gameState roadIds (roadId # rest) graph =
     (case getEdge gameState roadId of
        None \<Rightarrow> connectRoads gameState roadIds rest graph
      | Some edge \<Rightarrow>
          (case connectedRoads gameState roadIds roadId edge of
             None \<Rightarrow> None
           | Some connected \<Rightarrow> connectRoads gameState roadIds rest (AList.update roadId connected graph)))"

definition buildRoadGraph :: "GameState \<Rightarrow> string list \<Rightarrow> RoadGraph option" where
  "buildRoadGraph gameState roadIds =
     connectRoads gameState roadIds roadIds (fold (\<lambda>roadId graph. AList.update roadId [] graph) roadIds [])"

text \<open>\<open>None\<close>: the TypeError of \<open>buildRoadGraph\<close>.\<close>

definition calculateLongestRoadLength :: "GameState \<Rightarrow> string \<Rightarrow> int option" where
  "calculateLongestRoadLength gameState playerId =
     (case findPlayer gameState playerId of
        None \<Rightarrow> Some 0
      | Some player \<Rightarrow>
          if length (roads player) = 0 then Some 0
          else (case buildRoadGraph gameState (roads player) of
                  None \<Rightarrow> None
                | Some roadGraph \<Rightarrow>
                    Some (fold (\<lambda>roadId maxLength. max maxLength (depthFirstSearchLongestPath roadGraph roadId {}))
                               (roads player) 0)))"

text \<open>\<open>newState.players.map(...)\<close>: the (playerId, length) pairs, or the TypeError.\<close>

fun roadLengthsOf :: "GameState \<Rightarrow> Player list \<Rightarrow> (string \<times> int) list option" where
  "roadLengthsOf gameState [] = Some []"
| "roadLengthsOf gameState (player # rest) =
     (case calculateLongestRoadLength gameState (player_id player) of
        None \<Rightarrow> None
      | Some len \<Rightarrow> map_option (\<lambda>ls. (player_id player, len) # ls) (roadLengthsOf gameState rest))"

definition loseLongestRoad :: "Player \<Rightarrow> Player" where
  "loseLongestRoad p = p\<lparr>longestRoad := False, victoryPoints := victoryPoints p - 2\<rparr>"

definition gainLongestRoad :: "Player \<Rightarrow> Player" where
  "gainLongestRoad p = p\<lparr>longestRoad := True, victoryPoints := victoryPoints p + 2\<rparr>"

text \<open>\<open>players[findIndex(p => p.id === id)]\<close> followed by assignments to that player;
  index \<open>-1\<close> reads \<open>undefined\<close> and the assignment raises a TypeError: \<open>Failure\<close>.\<close>

definition modifyPlayerById :: "string \<Rightarrow> (Player \<Rightarrow> Player) \<Rightarrow> GameState \<Rightarrow> Result" where
  "modifyPlayerById playerId f gameState =
     (case findPlayerIndex gameState playerId of
        None \<Rightarrow> Failure ''TypeError'' gameState
      | Some i \<Rightarrow> Success (updatePlayerAt i f gameState))"

text \<open>\<open>sort((a, b) => b.length - a.length)\<close> is a stable sort by descending length.\<close>

definition sortDescending :: "(string \<times> int) list \<Rightarrow> (string \<times> int) list" where
  "sortDescending xs = sort_key (\<lambda>r. - snd r) xs"

definition updateLongestRoad :: "GameState \<Rightarrow> Result" where
  "updateLongestRoad gameState =
     (case roadLengthsOf gameState (players gameState) of
        None \<Rightarrow> Failure ''TypeError'' gameState
      | Some roadLengths \<Rightarrow>
          (case sortDescending (filter (\<lambda>r. snd r \<ge> 5) roadLengths) of
             [] \<Rightarrow> Success (gameState\<lparr>players :=
                     map (\<lambda>p. if longestRoad p then loseLongestRoad p else p) (players gameState)\<rparr>)
           | longest # others \<Rightarrow>
               let validRoads = longest # others;
                   longestLength = snd longest;
                   tiedPlayers = filter (\<lambda>r. snd r = longestLength) validRoads;
                   currentHolder = find longestRoad (players gameState)
               in if length tiedPlayers = 1 then
                    (let winnerId = fst (hd tiedPlayers)
                     in case (case currentHolder of
                                None \<Rightarrow> Success gameState
                              | Some h \<Rightarrow> if player_id h \<noteq> winnerId
                                          then modifyPlayerById (player_id h) loseLongestRoad gameState
                                          else Success gameState) of
                          Failure e s \<Rightarrow> Failure e s
                        | Success s1 \<Rightarrow>
                            if (case currentHolder of None \<Rightarrow> True | Some h \<Rightarrow> player_id h \<noteq> winnerId)
                            then modifyPlayerById winnerId gainLongestRoad s1
                            else Success s1)
                  else
                    (case currentHolder of
                       None \<Rightarrow> Success gameState
                     | Some h \<Rightarrow>
                         if \<not> list_ex (\<lambda>r. fst r = player_id h) tiedPlayers
                         then modifyPlayerById (player_id h) loseLongestRoad gameState
                         else Success gameState)))"

definition loseLargestArmy :: "Player \<Rightarrow> Player" where
  "loseLargestArmy p = p\<lparr>largestArmy := False, victoryPoints := victoryPoints p - 2\<rparr>"

definition gainLargestArmy :: "Player \<Rightarrow> Player" where
  "gainLargestArmy p = p\<lparr>largestArmy := True, victoryPoints := victoryPoints p + 2\<rparr>"

definition updateLargestArmy :: "GameState \<Rightarrow> Result" where
  "updateLargestArmy gameState =
     (case sortDescending (filter (\<lambda>r. snd r \<ge> 3)
                             (map (\<lambda>p. (player_id p, knightsPlayed p)) (players gameState))) of
        [] \<Rightarrow> Success (gameState\<lparr>players :=
                map (\<lambda>p. if largestArmy p then loseLargestArmy p else p) (players gameState)\<rparr>)
      | largest # others \<Rightarrow>
          let validArmies = largest # others;
              largestSize = snd largest;
              tiedPlayers = filter (\<lambda>r. snd r = largestSize) validArmies;
              currentHolder = find largestArmy (players gameState)
          in if length tiedPlayers = 1 then
               (let winnerId = fst (hd tiedPlayers)
                in case (case currentHolder of
                           None \<Rightarrow> Success gameState
                         | Some h \<Rightarrow> if player_id h \<noteq> winnerId
                                     then modifyPlayerById (player_id h) loseLargestArmy gameState
                                     else Success gameState) of
                     Failure e s \<Rightarrow> Failure e s
                   | Success s1 \<Rightarrow>
                       if (case currentHolder of None \<Rightarrow> True | Some h \<Rightarrow> player_id h \<noteq> winnerId)
                       then modifyPlayerById winnerId gainLargestArmy s1
                       else Success s1)
             else
               (case currentHolder of
                  None \<Rightarrow> Success gameState
                | Some h \<Rightarrow>
                    if \<not> list_ex (\<lambda>r. fst r = player_id h) tiedPlayers
                    then modifyPlayerById (player_id h) loseLargestArmy gameState
                    else Success gameState))"


section \<open>Board generator (rule-engine/src/board.ts)\<close>

definition mkTile :: "int \<Rightarrow> int \<Rightarrow> TerrainType \<Rightarrow> int option \<Rightarrow> HexCoordinate \<times> Tile" where
  "mkTile q r t n = ((q, r), \<lparr>coordinate = (q, r), terrain = t, numberDisc = n, hasRobber = (t = Desert)\<rparr>)"

definition createStandardTiles :: "(HexCoordinate \<times> Tile) list" where
  "createStandardTiles =
     [mkTile 0 0 Desert None,
      mkTile 1 0 Pasture (Some 9), mkTile 0 1 Field (Some 12), mkTile (-1) 1 Forest (Some 6),
      mkTile (-1) 0 Hill (Some 4), mkTile 0 (-1) Mountain (Some 10), mkTile 1 (-1) Hill (Some 5),
      mkTile 2 0 Forest (Some 11), mkTile 1 1 Field (Some 3), mkTile 0 2 Pasture (Some 8),
      mkTile (-1) 2 Hill (Some 8), mkTile (-2) 2 Mountain (Some 3), mkTile (-2) 1 Forest (Some 4),
      mkTile (-2) 0 Pasture (Some 2), mkTile (-1) (-1) Field (Some 6), mkTile 0 (-2) Mountain (Some 11),
      mkTile 1 (-2) Forest (Some 9), mkTile 2 (-2) Pasture (Some 5), mkTile 2 (-1) Field (Some 10)]"

text \<open>\<open>generateStandardBoard\<close>; the intersection and edge maps that
  \<open>createIntersectionsAndEdges\<close> derives from the tiles are taken as given.\<close>

definition generateStandardBoard ::
  "(string \<times> Intersection) list \<Rightarrow> (string \<times> Edge) list \<Rightarrow> GameBoard" where
  "generateStandardBoard is es =
     \<lparr>tiles = createStandardTiles, intersections = is, edges = es, robberLocation = (0, 0)\<rparr>"

definition newPlayer :: "string \<Rightarrow> nat \<Rightarrow> Player" where
  "newPlayer playerId index =
     \<lparr>player_id = playerId, color = [''red'', ''blue'', ''white'', ''orange''] ! index,
      resources = (\<lambda>r. 0), developmentCards = (\<lambda>c. 0),
      roads = [], settlements = [], cities = [],
      longestRoad = False, largestArmy = False,
      knightsPlayed = 0, victoryPoints = 0, canPlayDevCard = True\<rparr>"

text \<open>\<open>createNewGame\<close>; the game id (a time stamp), the generated intersections and edges
  and the shuffled deck are arguments.  \<open>None\<close>: ``Game requires 2-4 players''.\<close>

definition createNewGame ::
  "string \<Rightarrow> (string \<times> Intersection) list \<Rightarrow> (string \<times> Edge) list \<Rightarrow> DevelopmentCardType list
     \<Rightarrow> string list \<Rightarrow> GameState option" where
  "createNewGame gid is es deck playerIds =
     (if length playerIds < 2 \<or> length playerIds > 4 then None
      else Some \<lparr>game_id = gid, phase = SETUP_ROUND_1, currentPlayerIndex = 0,
                 players = map (\<lambda>(playerId, index). newPlayer playerId index)
                               (zip playerIds [0 ..< length playerIds]),
                 board = generateStandardBoard is es,
                 developmentCardDeck = deck, diceRoll = None, turn = 1, winner = None\<rparr>)"

section \<open>Orchestrator (rule-engine/src/rule-engine.ts)\<close>

datatype CardPlay =
    PlayKnight HexCoordinate "string option"
  | PlayRoadBuilding "string \<times> string"
  | PlayInvention "ResourceType \<times> ResourceType"
  | PlayMonopoly ResourceType
  | PlayVictoryPoint
  | PlayUnknownCard string

datatype ActionType =
    ROLL_DICE
  | BUILD_ROAD string
  | BUILD_SETTLEMENT string
  | BUILD_CITY string
  | BUY_DEVELOPMENT_CARD
  | PLAY_DEVELOPMENT_CARD CardPlay
  | TRADE_WITH_PLAYER TradeOffer
  | TRADE_WITH_BANK TradeOffer
  | MOVE_ROBBER HexCoordinate "string option"
  | DISCARD_RESOURCES PartialResources
  | END_TURN
  | UNKNOWN_ACTION string

record Action =
  action_type :: ActionType
  action_playerId :: string

text \<open>The guard \<open>players[currentPlayerIndex].id !== action.playerId\<close> of the handlers.\<close>

definition notYourTurn :: "GameState \<Rightarrow> Action \<Rightarrow> string \<Rightarrow> string option" where
  "notYourTurn gameState a message =
     (case currentPlayerId gameState of
        None \<Rightarrow> Some ''TypeError''
      | Some c \<Rightarrow> if c \<noteq> action_playerId a then Some message else None)"

definition handleRollDice :: "Random \<Rightarrow> GameState \<Rightarrow> Action \<Rightarrow> Result" where
  "handleRollDice rnd gameState a =
     (if phase gameState \<noteq> PRODUCTION then Failure ''Can only roll dice during production phase'' gameState
      else (case notYourTurn gameState a ''Not your turn to roll dice'' of
              Some e \<Rightarrow> Failure e gameState
            | None \<Rightarrow>
                let roll = (die1 rnd, die2 rnd);
                    diceSum = die1 rnd + die2 rnd;
                    s0 = gameState\<lparr>diceRoll := Some roll\<rparr>;
                    newState = (if diceSum = 7 then (handleSevenRolled s0)\<lparr>diceRoll := Some roll\<rparr>
                                else (distributeResources s0 diceSum)\<lparr>diceRoll := Some roll\<rparr>)
                in Success (if diceSum \<noteq> 7 \<or> isDiscardPhaseComplete newState
                            then newState\<lparr>phase := ACTION\<rparr> else newState)))"

definition handleBuildRoad :: "GameState \<Rightarrow> Action \<Rightarrow> string \<Rightarrow> Result" where
  "handleBuildRoad gameState a edgeId =
     (case notYourTurn gameState a ''Not your turn to build'' of
        Some e \<Rightarrow> Failure e gameState
      | None \<Rightarrow> buildRoad gameState (action_playerId a) edgeId)"

definition handleBuildSettlement :: "GameState \<Rightarrow> Action \<Rightarrow> string \<Rightarrow> Result" where
  "handleBuildSettlement gameState a intersectionId =
     (case notYourTurn gameState a ''Not your turn to build'' of
        Some e \<Rightarrow> Failure e gameState
      | None \<Rightarrow> buildSettlement gameState (action_playerId a) intersectionId)"

definition handleBuildCity :: "GameState \<Rightarrow> Action \<Rightarrow> string \<Rightarrow> Result" where
  "handleBuildCity gameState a intersectionId =
     (case notYourTurn gameState a ''Not your turn to build'' of
        Some e \<Rightarrow> Failure e gameState
      | None \<Rightarrow> buildCity gameState (action_playerId a) intersectionId)"

definition handleBuyDevelopmentCard :: "GameState \<Rightarrow> Action \<Rightarrow> Result" where
  "handleBuyDevelopmentCard gameState a = buyDevelopmentCard gameState (action_playerId a)"

definition handlePlayDevelopmentCard :: "Random \<Rightarrow> GameState \<Rightarrow> Action \<Rightarrow> CardPlay \<Rightarrow> Result" where
  "handlePlayDevelopmentCard rnd gameState a cardPlay =
     (case cardPlay of
        PlayKnight location targetPlayerId \<Rightarrow>
          playKnightCard rnd gameState (action_playerId a) location targetPlayerId
      | PlayRoadBuilding edgeIds \<Rightarrow> playRoadBuildingCard gameState (action_playerId a) edgeIds
      | PlayInvention chosen \<Rightarrow> playInventionCard gameState (action_playerId a) chosen
      | PlayMonopoly resourceType \<Rightarrow> playMonopolyCard gameState (action_playerId a) resourceType
      | PlayVictoryPoint \<Rightarrow> playVictoryPointCard gameState (action_playerId a)
      | PlayUnknownCard cardType \<Rightarrow> Failure (''Unknown development card type: '' @ cardType) gameState)"

definition handlePlayerTrade :: "GameState \<Rightarrow> TradeOffer \<Rightarrow> Result" where
  "handlePlayerTrade gameState tradeOffer = executeTrade gameState tradeOffer"

definition handleBankTrade :: "GameState \<Rightarrow> TradeOffer \<Rightarrow> Result" where
  "handleBankTrade gameState tradeOffer = executeTrade gameState tradeOffer"

definition handleMoveRobber :: "Random \<Rightarrow> GameState \<Rightarrow> Action \<Rightarrow> HexCoordinate \<Rightarrow> string option \<Rightarrow> Result" where
  "handleMoveRobber rnd gameState a location targetPlayerId =
     moveRobber rnd gameState (action_playerId a) location targetPlayerId"

definition handleDiscardResources :: "GameState \<Rightarrow> Action \<Rightarrow> PartialResources \<Rightarrow> Result" where
  "handleDiscardResources gameState a resourcesToDiscard =
     discardResources gameState (action_playerId a) resourcesToDiscard"

definition handleEndTurn :: "GameState \<Rightarrow> Action \<Rightarrow> Result" where
  "handleEndTurn gameState a =
     (case notYourTurn gameState a ''Not your turn to end turn'' of
        Some e \<Rightarrow> Failure e gameState
      | None \<Rightarrow>
          let s1 = resetPlayDevCardFlag gameState;
              s2 = s1\<lparr>currentPlayerIndex := (currentPlayerIndex s1 + 1) mod length (players s1)\<rparr>;
              s3 = (if currentPlayerIndex s2 = 0 then s2\<lparr>turn := turn s2 + 1\<rparr> else s2)
          in Success
               (if phase s3 = SETUP_ROUND_1 then
                  (if currentPlayerIndex s3 = 0 \<and> turn s3 > 1
                   then s3\<lparr>phase := SETUP_ROUND_2, currentPlayerIndex := length (players s3) - 1\<rparr>
                   else s3)
                else if phase s3 = SETUP_ROUND_2 then
                  (if currentPlayerIndex s3 = 0 then s3\<lparr>phase := PRODUCTION\<rparr> else s3)
                else s3\<lparr>phase := PRODUCTION\<rparr>))"

text \<open>The \<open>switch\<close> of \<open>processAction\<close>.\<close>

definition dispatchAction :: "Random \<Rightarrow> GameState \<Rightarrow> Action \<Rightarrow> Result" where
  "dispatchAction rnd gameState a =
     (case action_type a of
        ROLL_DICE \<Rightarrow> handleRollDice rnd gameState a
      | BUILD_ROAD edgeId \<Rightarrow> handleBuildRoad gameState a edgeId
      | BUILD_SETTLEMENT intersectionId \<Rightarrow> handleBuildSettlement gameState a intersectionId
      | BUILD_CITY intersectionId \<Rightarrow> handleBuildCity gameState a intersectionId
      | BUY_DEVELOPMENT_CARD \<Rightarrow> handleBuyDevelopmentCard gameState a
      | PLAY_DEVELOPMENT_CARD cardPlay \<Rightarrow> handlePlayDevelopmentCard rnd gameState a cardPlay
      | TRADE_WITH_PLAYER tradeOffer \<Rightarrow> handlePlayerTrade gameState tradeOffer
      | TRADE_WITH_BANK tradeOffer \<Rightarrow> handleBankTrade gameState tradeOffer
      | MOVE_ROBBER location targetPlayerId \<Rightarrow> handleMoveRobber rnd gameState a location targetPlayerId
      | DISCARD_RESOURCES resourcesToDiscard \<Rightarrow> handleDiscardResources gameState a resourcesToDiscard
      | END_TURN \<Rightarrow> handleEndTurn gameState a
      | UNKNOWN_ACTION t \<Rightarrow> Failure (''Unknown action type: '' @ t) gameState)"

text \<open>The part of \<open>processAction\<close> after the \<open>switch\<close>: the two bonus holders are
  recomputed and the win condition is checked.\<close>

definition updateVictoryConditions :: "GameState \<Rightarrow> Result" where
  "updateVictoryConditions newState =
     (case updateLongestRoad newState of
        Failure e s \<Rightarrow> Failure e s
      | Success s1 \<Rightarrow>
          (case updateLargestArmy s1 of
             Failure e s \<Rightarrow> Failure e s
           | Success s2 \<Rightarrow>
               (case getWinner s2 of
                  None \<Rightarrow> Success s2
                | Some w \<Rightarrow> Success (s2\<lparr>phase := GAME_OVER, winner := Some (player_id w)\<rparr>))))"

definition processAction :: "Random \<Rightarrow> GameState \<Rightarrow> Action \<Rightarrow> Result" where
  "processAction rnd gameState a =
     (case dispatchAction rnd gameState a of
        Failure e s \<Rightarrow> Failure e s
      | Success newState \<Rightarrow> updateVictoryConditions newState)"

section \<open>Notions of the specification and example states\<close>

text \<open>The number of resource units held by all players together.\<close>

definition totalUnits :: "GameState \<Rightarrow> int" where
  "totalUnits s = sum_list (map (\<lambda>p. getTotalResources (resources p)) (players s))"

text \<open>A two-player state in which only the first player holds anything (one wood), and an
  offer of that wood to the second player for five ore.\<close>

definition tradeDemoState :: GameState where
  "tradeDemoState =
     \<lparr>game_id = ''game_1'', phase = ACTION, currentPlayerIndex = 0,
      players = [(newPlayer ''p1'' 0)\<lparr>resources := (\<lambda>r. 0)(Wood := 1)\<rparr>, newPlayer ''p2'' 1],
      board = generateStandardBoard [] [], developmentCardDeck = [], diceRoll = None,
      turn = 3, winner = None\<rparr>"

definition tradeDemoOffer :: TradeOffer where
  "tradeDemoOffer = \<lparr>offering = [Wood \<mapsto> 1], requesting = [Ore \<mapsto> 5],
                      fromPlayerId = ''p1'', toPlayerId = Some ''p2''\<rparr>"

text \<open>What an offer names: a kind is named when its amount is positive (the filter
  \<open>amount > 0\<close> of \<open>validateBankTrade\<close>), and that amount is the amount named.\<close>

definition namedAmount :: "PartialResources \<Rightarrow> ResourceType \<Rightarrow> int" where
  "namedAmount m r = (case m r of None \<Rightarrow> 0 | Some a \<Rightarrow> if a > 0 then a else 0)"

definition namedKinds :: "PartialResources \<Rightarrow> ResourceType set" where
  "namedKinds m = {r. namedAmount m r > 0}"

text \<open>The player has a building on an intersection with a port of the given type: the
  player's ledger lists a settlement or city there.\<close>

definition hasPort :: "GameState \<Rightarrow> Player \<Rightarrow> PortType \<Rightarrow> bool" where
  "hasPort gameState player pt =
     list_ex (\<lambda>intersectionId.
        case getIntersection gameState intersectionId of
          None \<Rightarrow> False
        | Some intersection \<Rightarrow> (case port intersection of None \<Rightarrow> False | Some p \<Rightarrow> port_type p = pt))
       (settlements player @ cities player)"

text \<open>The ratio of the specification: the minimum of 4, of 3 with a generic port and of 2
  with the specific port of the offered kind.\<close>

definition requiredRatio :: "GameState \<Rightarrow> Player \<Rightarrow> ResourceType \<Rightarrow> int" where
  "requiredRatio gameState player r =
     min 4 (min (if hasPort gameState player Generic then 3 else 4)
                (if hasPort gameState player (Specific r) then 2 else 4))"

text \<open>The ports of a generated board: generic ports trade 3:1, specific ports 2:1
  (\<open>getPortForIntersection\<close>).\<close>

definition standardPorts :: "GameState \<Rightarrow> bool" where
  "standardPorts gameState =
     list_all (\<lambda>intersection.
        case port intersection of
          None \<Rightarrow> True
        | Some p \<Rightarrow> ratio p = (case port_type p of Generic \<Rightarrow> 3 | Specific r \<Rightarrow> 2))
       (map snd (intersections (board gameState)))"

text \<open>A state whose first player has a settlement on the generic port of intersection
  (1, 1) and holds three wood, and the bank offer of three wood for one brick.\<close>

definition bankDemoState :: GameState where
  "bankDemoState =
     \<lparr>game_id = ''game_1'', phase = ACTION, currentPlayerIndex = 0,
      players = [(newPlayer ''p1'' 0)\<lparr>resources := (\<lambda>r. 0)(Wood := 3), settlements := [''i_1,1''],
                                      victoryPoints := 1\<rparr>,
                 newPlayer ''p2'' 1],
      board = generateStandardBoard
        [(''i_1,1'', \<lparr>intersection_id = ''i_1,1'', hexes = [(1, 1)],
                      intersection_edges = [''e_1,1_2,0'', ''e_1,1_2,1'', ''e_1,1_1,2''],
                      building = Some \<lparr>building_type = Settlement, building_playerId = ''p1''\<rparr>,
                      port = Some \<lparr>port_type = Generic, ratio = 3\<rparr>\<rparr>)] [],
      developmentCardDeck = [], diceRoll = None, turn = 3, winner = None\<rparr>"

definition bankDemoOffer :: TradeOffer where
  "bankDemoOffer = \<lparr>offering = [Wood \<mapsto> 3], requesting = [Brick \<mapsto> 1],
                     fromPlayerId = ''p1'', toPlayerId = None\<rparr>"

text \<open>The entries of an offer that pass the filter \<open>amount > 0\<close>, and the ports found
  at one intersection id of a ledger (auxiliary to the proofs about bank trades).\<close>

definition named :: "PartialResources \<Rightarrow> (ResourceType \<times> int) list" where
  "named m = filter (\<lambda>(r, amount). amount > 0) (entries m)"

definition portAt :: "GameState \<Rightarrow> string \<Rightarrow> Port list" where
  "portAt s intersectionId =
     (case map_of (intersections (board s)) intersectionId of
        None \<Rightarrow> []
      | Some intersection \<Rightarrow> (case port intersection of None \<Rightarrow> [] | Some p \<Rightarrow> [p]))"

text \<open>Production as the specification words it: a building on an intersection touching
  the tile credits its owner 1 unit (settlement) or 2 units (city); a tile produces for a
  dice sum when its number disc equals the sum, the robber is not on it and its terrain
  yields a resource; a player's production of a kind is the sum over all tiles.\<close>

definition buildingCredit :: "HexCoordinate \<Rightarrow> string \<Rightarrow> Intersection \<Rightarrow> int" where
  "buildingCredit tileCoord playerId intersection =
     (case building intersection of
        None \<Rightarrow> 0
      | Some b \<Rightarrow>
          if isAdjacentTo intersection tileCoord \<and> building_playerId b = playerId
          then (if building_type b = City then 2 else 1) else 0)"

definition tileProduction :: "GameState \<Rightarrow> int \<Rightarrow> string \<Rightarrow> ResourceType \<Rightarrow> Tile \<Rightarrow> int" where
  "tileProduction gameState diceSum playerId r tile =
     (if numberDisc tile = Some diceSum \<and> \<not> hasRobber tile \<and> terrainToResource (terrain tile) = Some r
      then sum_list (map (buildingCredit (coordinate tile) playerId)
                         (map snd (intersections (board gameState))))
      else 0)"

definition expectedProduction :: "GameState \<Rightarrow> int \<Rightarrow> string \<Rightarrow> ResourceType \<Rightarrow> int" where
  "expectedProduction gameState diceSum playerId r =
     sum_list (map (tileProduction gameState diceSum playerId r) (map snd (tiles (board gameState))))"

text \<open>The tile map of a board holds each tile under the key of its own coordinate, as
  \<open>createStandardTiles\<close> builds it.\<close>

definition tilesKeyedByCoordinate :: "GameState \<Rightarrow> bool" where
  "tilesKeyedByCoordinate gameState =
     (distinct (map fst (tiles (board gameState))) \<and>
      list_all (\<lambda>(k, t). coordinate t = k) (tiles (board gameState)))"

text \<open>A state on the standard tiles: the first player has a city on intersection (0, 0),
  which touches the forest (-1, 1) with disc 6; the second player has a settlement on
  intersection (-1, -1), which touches the field (-1, -1) with disc 6.\<close>

definition productionDemoState :: GameState where
  "productionDemoState =
     \<lparr>game_id = ''game_1'', phase = PRODUCTION, currentPlayerIndex = 0,
      players = [(newPlayer ''p1'' 0)\<lparr>cities := [''i_0,0''], victoryPoints := 2\<rparr>,
                 (newPlayer ''p2'' 1)\<lparr>settlements := [''i_-1,-1''], victoryPoints := 1\<rparr>],
      board = generateStandardBoard
        [(''i_0,0'', \<lparr>intersection_id = ''i_0,0'', hexes = [(0, 0), (0, 1), (-1, 1)],
                      intersection_edges = [''e_0,0_1,-1'', ''e_0,0_1,0'', ''e_0,0_0,1''],
                      building = Some \<lparr>building_type = City, building_playerId = ''p1''\<rparr>,
                      port = None\<rparr>),
         (''i_-1,-1'', \<lparr>intersection_id = ''i_-1,-1'', hexes = [(-1, -1), (-1, 0), (-2, 0)],
                      intersection_edges = [''e_-1,-1_0,-2'', ''e_-1,-1_0,-1'', ''e_-1,-1_-1,0''],
                      building = Some \<lparr>building_type = Settlement, building_playerId = ''p2''\<rparr>,
                      port = None\<rparr>)] [],
      developmentCardDeck = [], diceRoll = None, turn = 3, winner = None\<rparr>"

text \<open>What a step of production does to the hands, and what it leaves alone.\<close>

definition credits :: "GameState \<Rightarrow> GameState \<Rightarrow> (nat \<Rightarrow> ResourceType \<Rightarrow> int) \<Rightarrow> bool" where
  "credits s s' f \<longleftrightarrow>
     map player_id (players s') = map player_id (players s) \<and>
     (\<forall>i < length (players s). \<forall>r. resources (players s' ! i) r = resources (players s ! i) r + f i r)"

text \<open>The qualifying road length of the player at a seat (0 when the computation raises),
  and the pair that \<open>updateLongestRoad\<close> records for a player.\<close>

definition roadLength :: "GameState \<Rightarrow> nat \<Rightarrow> int" where
  "roadLength s i = (case calculateLongestRoadLength s (player_id (players s ! i)) of
                       None \<Rightarrow> 0 | Some l \<Rightarrow> l)"

definition lengthOf :: "GameState \<Rightarrow> Player \<Rightarrow> string \<times> int" where
  "lengthOf s p = (player_id p, case calculateLongestRoadLength s (player_id p) of
                                  None \<Rightarrow> 0 | Some l \<Rightarrow> l)"

text \<open>A seat is at the maximum when its length qualifies (at least 5) and no seat has a
  longer road.\<close>

definition atMaximum :: "GameState \<Rightarrow> nat \<Rightarrow> bool" where
  "atMaximum s i \<longleftrightarrow> 5 \<le> roadLength s i \<and> (\<forall>j < length (players s). roadLength s j \<le> roadLength s i)"

definition atMostOneHolder :: "GameState \<Rightarrow> bool" where
  "atMostOneHolder s \<longleftrightarrow> length (filter longestRoad (players s)) \<le> 1"

text \<open>Two players, and two states, that differ at most in the bonus flags and the points.\<close>

definition awardOnly1 :: "Player \<Rightarrow> Player \<Rightarrow> bool" where
  "awardOnly1 p q \<longleftrightarrow>
     player_id q = player_id p \<and> roads q = roads p \<and> resources q = resources p \<and>
     developmentCards q = developmentCards p \<and> settlements q = settlements p \<and>
     cities q = cities p \<and> knightsPlayed q = knightsPlayed p \<and>
     canPlayDevCard q = canPlayDevCard p \<and> largestArmy q = largestArmy p"

definition awardOnly :: "GameState \<Rightarrow> GameState \<Rightarrow> bool" where
  "awardOnly s s' \<longleftrightarrow>
     board s' = board s \<and> phase s' = phase s \<and> currentPlayerIndex s' = currentPlayerIndex s \<and>
     list_all2 awardOnly1 (players s) (players s')"

text \<open>Two states whose boards agree and whose players agree, seat by seat, in id, road
  ledger and longest-road flag.\<close>

definition seatsKept :: "GameState \<Rightarrow> GameState \<Rightarrow> bool" where
  "seatsKept s s' \<longleftrightarrow>
     board s' = board s \<and>
     list_all2 (\<lambda>p q. player_id q = player_id p \<and> roads q = roads p \<and> longestRoad q = longestRoad p)
               (players s) (players s')"

(*DEFS-END*)

section \<open>Termination of the longest-road search\<close>

lemma finite_graphNodes: "finite (graphNodes graph)"
  by (auto simp: graphNodes_def)

lemma neighborsOf_key_in_nodes: "neighborsOf graph r \<noteq> [] \<Longrightarrow> r \<in> graphNodes graph"
  by (auto simp: neighborsOf_def graphNodes_def split: option.splits dest!: map_of_SomeD
      intro!: image_eqI [where x = "(r, _)"])

lemma neighborsOf_in_nodes:
  assumes "n \<in> set (neighborsOf graph r)"
  shows "n \<in> graphNodes graph"
proof (cases "map_of graph r")
  case None
  with assms show ?thesis by (simp add: neighborsOf_def)
next
  case (Some ns)
  then have "(r, ns) \<in> set graph" by (rule map_of_SomeD)
  moreover from assms Some have "n \<in> set ns" by (simp add: neighborsOf_def)
  ultimately show ?thesis by (auto simp: graphNodes_def)
qed

lemma card_unvisited_insert:
  assumes "r \<in> graphNodes graph" "r \<notin> visited"
  shows "card (graphNodes graph - insert r visited) < card (graphNodes graph - visited)"
proof -
  have "graphNodes graph - insert r visited \<subset> graphNodes graph - visited"
    using assms by auto
  then show ?thesis
    by (intro psubset_card_mono) (auto simp: finite_graphNodes)
qed

termination depthFirstSearchLongestPath
proof (relation "inv_image (less_than <*lex*> less_than) searchWeight", goal_cases)
  case 1
  show ?case by (intro wf_inv_image wf_lex_prod wf_less_than)
next
  case (2 graph currentRoad visited)
  show ?case by (simp add: searchWeight_def)
next
  case (3 graph neighborRoad rest visited maxPath)
  then show ?case
    using card_unvisited_insert [of neighborRoad graph visited] neighborsOf_key_in_nodes [of graph neighborRoad]
    by (auto simp: searchWeight_def)
next
  case (4 graph neighborRoad rest visited maxPath)
  show ?case by (auto simp: searchWeight_def)
next
  case (5 graph neighborRoad rest visited maxPath)
  show ?case by (auto simp: searchWeight_def)
qed

lemma visitNeighbors_total:
  assumes IH: "\<And>n v. n \<notin> v \<Longrightarrow> card (insert n (graphNodes graph) - v) < fuel \<Longrightarrow>
                 search n v = Some (depthFirstSearchLongestPath graph n v, v)"
    and sub: "set ns \<subseteq> graphNodes graph"
    and bound: "card (graphNodes graph - visited) < fuel"
  shows "visitNeighbors search ns maxPath visited =
           Some (searchNeighbors graph ns visited maxPath, visited)"
  using sub
proof (induction ns arbitrary: maxPath)
  case Nil
  show ?case by simp
next
  case (Cons n rest)
  show ?case
  proof (cases "n \<in> visited")
    case True
    with Cons show ?thesis by simp
  next
    case False
    from Cons.prems have "n \<in> graphNodes graph" by simp
    then have "insert n (graphNodes graph) = graphNodes graph" by auto
    with bound False have "search n visited = Some (depthFirstSearchLongestPath graph n visited, visited)"
      by (intro IH) simp_all
    with False Cons show ?thesis by simp
  qed
qed

lemma markedSearch_total:
  "currentRoad \<notin> visited \<Longrightarrow> card (insert currentRoad (graphNodes graph) - visited) < fuel \<Longrightarrow>
     markedSearch fuel graph currentRoad visited =
       Some (depthFirstSearchLongestPath graph currentRoad visited, visited)"
proof (induction fuel arbitrary: currentRoad visited)
  case 0
  then show ?case by simp
next
  case (Suc fuel)
  let ?v = "insert currentRoad visited"
  have fin: "finite (insert currentRoad (graphNodes graph) - visited)"
    by (simp add: finite_graphNodes)
  have "graphNodes graph - ?v \<subset> insert currentRoad (graphNodes graph) - visited"
    using Suc.prems(1) by auto
  then have "card (graphNodes graph - ?v) < card (insert currentRoad (graphNodes graph) - visited)"
    using fin by (rule psubset_card_mono [rotated])
  with Suc.prems(2) have bound: "card (graphNodes graph - ?v) < fuel" by simp
  have sub: "set (neighborsOf graph currentRoad) \<subseteq> graphNodes graph"
    using neighborsOf_in_nodes by blast
  have "visitNeighbors (\<lambda>n v. markedSearch fuel graph n v) (neighborsOf graph currentRoad) 0 ?v =
          Some (searchNeighbors graph (neighborsOf graph currentRoad) ?v 0, ?v)"
    using Suc.IH sub bound by (rule visitNeighbors_total)
  moreover have "?v - {currentRoad} = visited" using Suc.prems(1) by auto
  ultimately show ?case by simp
qed

text \<open>
  C9.  The depth-first longest-path search is a terminating computation on every road
  graph, cyclic or not: started from any road with an empty \<open>visited\<close> set, the search
  with mark-on-entry and unmark-on-return returns once its recursion depth may reach the
  number of roads of the graph (plus the start road); it hands the \<open>visited\<close> set back
  empty, and its result is the value of the total function
  \<open>depthFirstSearchLongestPath\<close> that \<open>calculateLongestRoadLength\<close> is defined with, whose
  own termination is proved above by a measure on the unvisited roads.  The other loops
  of \<open>calculateLongestRoadLength\<close> and \<open>buildRoadGraph\<close> run over finite lists.
\<close>

theorem longest_road_search_terminates:
  "markedSearch (Suc (card (insert startRoad (graphNodes graph)))) graph startRoad {} =
     Some (depthFirstSearchLongestPath graph startRoad {}, {})"
  by (rule markedSearch_total) simp_all

section \<open>Hand arithmetic\<close>

lemma map_of_entriesOver:
  "map_of (concat (map (\<lambda>r. case m r of None \<Rightarrow> [] | Some a \<Rightarrow> [(r, a)]) ks)) r =
     (if r \<in> set ks then m r else None)"
  by (induction ks) (auto split: option.splits)

lemma fst_entriesOver:
  "fst ` set (concat (map (\<lambda>r. case m r of None \<Rightarrow> [] | Some a \<Rightarrow> [(r, a)]) ks)) \<subseteq> set ks"
  by (induction ks) (auto split: option.splits)

lemma distinct_entriesOver:
  "distinct ks \<Longrightarrow> distinct (map fst (concat (map (\<lambda>r. case m r of None \<Rightarrow> [] | Some a \<Rightarrow> [(r, a)]) ks)))"
proof (induction ks)
  case Nil
  then show ?case by simp
next
  case (Cons k ks)
  then show ?case using fst_entriesOver [of m ks]
    by (auto split: option.splits)
qed

lemma resourceKinds_all: "r \<in> set resourceKinds"
  by (cases r) (simp_all add: resourceKinds_def)

lemma map_of_entries: "map_of (entries m) r = m r"
  by (simp add: entries_def map_of_entriesOver resourceKinds_all)

lemma distinct_entries: "distinct (map fst (entries m))"
  unfolding entries_def by (rule distinct_entriesOver) (simp add: resourceKinds_def)

lemma set_entries: "(r, a) \<in> set (entries m) \<longleftrightarrow> m r = Some a"
  using map_of_entries [of m r] distinct_entries [of m]
  by (metis map_of_SomeD map_of_is_SomeI)

lemma fold_keyed_update:
  "distinct (map fst es) \<Longrightarrow>
     fold (\<lambda>(k, a) res. if P a then res(k := g a (res k)) else res) es h r =
       (case map_of es r of None \<Rightarrow> h r | Some a \<Rightarrow> if P a then g a (h r) else h r)"
proof (induction es arbitrary: h)
  case Nil
  then show ?case by simp
next
  case (Cons e es)
  obtain k a where e: "e = (k, a)" by (cases e)
  from Cons.prems e have notin: "k \<notin> fst ` set es" and d: "distinct (map fst es)" by auto
  from notin have none: "map_of es k = None" by (simp add: map_of_eq_None_iff)
  show ?case using Cons.IH [OF d] none e
    by (auto split: option.splits)
qed

lemma subtractResources_apply:
  "subtractResources h m r =
     (case m r of None \<Rightarrow> h r | Some a \<Rightarrow> if a > 0 then max 0 (h r - a) else h r)"
  unfolding subtractResources_def
  using fold_keyed_update [OF distinct_entries, of "\<lambda>a. a > 0" "\<lambda>a x. max 0 (x - a)" m h r]
  by (simp add: map_of_entries)

lemma addResources_apply:
  "addResources h m r =
     (case m r of None \<Rightarrow> h r | Some a \<Rightarrow> if a > 0 then h r + a else h r)"
  unfolding addResources_def
  using fold_keyed_update [OF distinct_entries, of "\<lambda>a. a > 0" "\<lambda>a x. x + a" m h r]
  by (simp add: map_of_entries)

lemma hasResources_iff:
  "hasResources h m \<longleftrightarrow> (\<forall>r a. m r = Some a \<longrightarrow> a \<le> h r)"
  by (auto simp: hasResources_def list_all_iff set_entries)

section \<open>Player lookup\<close>

lemma findIndex_SomeD:
  "findIndex P xs = Some i \<Longrightarrow> i < length xs \<and> P (xs ! i) \<and> (\<forall>j<i. \<not> P (xs ! j))"
proof (induction xs arbitrary: i)
  case Nil
  then show ?case by simp
next
  case (Cons x xs)
  show ?case
  proof (cases "P x")
    case True
    with Cons.prems show ?thesis by simp
  next
    case False
    with Cons.prems obtain k where k: "findIndex P xs = Some k" "i = Suc k" by auto
    from Cons.IH [OF k(1)] False k(2) show ?thesis
      by (auto simp: less_Suc_eq_0_disj)
  qed
qed

lemma findIndex_find: "findIndex P xs = Some i \<Longrightarrow> find P xs = Some (xs ! i)"
  by (induction xs arbitrary: i) (auto split: if_splits)

lemma findIndex_None_iff: "findIndex P xs = None \<longleftrightarrow> find P xs = None"
  by (induction xs) auto

lemma findIndex_map: "findIndex (\<lambda>p. f p = x) xs = findIndex (\<lambda>y. y = x) (map f xs)"
  by (induction xs) auto

lemma findPlayerIndex_cong:
  "map player_id (players s') = map player_id (players s) \<Longrightarrow> findPlayerIndex s' p = findPlayerIndex s p"
  unfolding findPlayerIndex_def
  by (subst (1 2) findIndex_map) simp

lemma ids_updatePlayerAt:
  "(\<And>p. player_id (f p) = player_id p) \<Longrightarrow>
     map player_id (players (updatePlayerAt i f s)) = map player_id (players s)"
proof (cases "i < length (players s)")
  case True
  assume "\<And>p. player_id (f p) = player_id p"
  with True show ?thesis
    by (simp add: updatePlayerAt_def map_update list_update_same_conv)
next
  case False
  then show ?thesis by (simp add: updatePlayerAt_def list_update_beyond)
qed

lemma findPlayer_index:
  "findPlayerIndex s p = Some i \<Longrightarrow> findPlayer s p = Some (players s ! i)"
  by (simp add: findPlayer_def findPlayerIndex_def findIndex_find)

lemma tradeHand_id [simp]: "player_id (tradeHand a b p) = player_id p"
  by (simp add: tradeHand_def)

lemma executeTrade_success:
  assumes "findPlayerIndex s (fromPlayerId offer) = Some i"
    and "toPlayerId offer = Some t" and "t \<noteq> []"
    and "findPlayerIndex s t = Some j"
    and "hasResources (resources (players s ! i)) (offering offer)"
  shows "executeTrade s offer =
           Success (updatePlayerAt j (tradeHand (requesting offer) (offering offer))
                      (updatePlayerAt i (tradeHand (offering offer) (requesting offer)) s))"
proof -
  let ?s1 = "updatePlayerAt i (tradeHand (offering offer) (requesting offer)) s"
  have ids: "map player_id (players ?s1) = map player_id (players s)"
    by (rule ids_updatePlayerAt) simp
  have j: "findPlayerIndex ?s1 t = Some j"
    using assms(4) findPlayerIndex_cong [OF ids] by simp
  have fp: "findPlayer s (fromPlayerId offer) = Some (players s ! i)"
    using assms(1) by (rule findPlayer_index)
  have tp: "findPlayer s t = Some (players s ! j)"
    using assms(4) by (rule findPlayer_index)
  have valid: "validatePlayerTrade s offer = Valid"
    using fp tp assms(2,3,5) by (simp add: validatePlayerTrade_def truthy_def)
  have tr: "truthy (toPlayerId offer)" "the (toPlayerId offer) = t"
    using assms(2,3) by (simp_all add: truthy_def)
  show ?thesis
    by (simp add: executeTrade_def Let_def valid assms(1) tr j)
qed

section \<open>C10: a player trade does not check the counterpart\<close>

lemma isSuccess_sharedAfter: "isSuccess r \<Longrightarrow> r = Success (sharedAfter r)"
  by (cases r) (simp_all add: isSuccess_def sharedAfter_def)

lemma subtractResources_clamps:
  "m r = Some a \<Longrightarrow> 0 < a \<Longrightarrow> h r < a \<Longrightarrow> subtractResources h m r = 0"
  by (simp add: subtractResources_apply)

lemma players_updatePlayerAt_nth:
  "j < length (players s) \<Longrightarrow> players (updatePlayerAt j f s) ! j = f (players s ! j)"
  by (simp add: updatePlayerAt_def)

lemma players_updatePlayerAt_other:
  "i \<noteq> j \<Longrightarrow> players (updatePlayerAt i f s) ! j = players s ! j"
  by (simp add: updatePlayerAt_def)

lemma length_players_updatePlayerAt [simp]:
  "length (players (updatePlayerAt i f s)) = length (players s)"
  by (simp add: updatePlayerAt_def)

lemma findPlayerIndex_less: "findPlayerIndex s p = Some i \<Longrightarrow> i < length (players s)"
  unfolding findPlayerIndex_def by (drule findIndex_SomeD) simp

lemma tradeDemo_changes_total:
  "isSuccess (executeTrade tradeDemoState tradeDemoOffer) \<and>
   totalUnits (sharedAfter (executeTrade tradeDemoState tradeDemoOffer)) = 6 \<and>
   totalUnits tradeDemoState = 1"
  by code_simp

text \<open>
  C10.  A player-to-player offer whose initiator exists and holds what is offered, and whose
  counterpart exists, is executed whatever the counterpart holds: \<open>executeTrade\<close>
  succeeds, the counterpart's hand becomes the clamped difference plus what was offered
  (a requested kind of which they hold less than the requested amount drops to zero), and
  there is such a trade after which the players together hold a different number of units.
\<close>

theorem executeTrade_counterpart_unchecked:
  assumes i: "findPlayerIndex s (fromPlayerId offer) = Some i"
    and t: "toPlayerId offer = Some t" "t \<noteq> []"
    and j: "findPlayerIndex s t = Some j"
    and has: "hasResources (resources (players s ! i)) (offering offer)"
  shows "(\<exists>s'. executeTrade s offer = Success s' \<and>
            (i \<noteq> j \<longrightarrow> resources (players s' ! j) =
               addResources (subtractResources (resources (players s ! j)) (requesting offer))
                            (offering offer))) \<and>
         (\<forall>r a. requesting offer r = Some a \<and> 0 < a \<and> resources (players s ! j) r < a \<longrightarrow>
            subtractResources (resources (players s ! j)) (requesting offer) r = 0) \<and>
         (\<exists>s0 offer0 s1. truthy (toPlayerId offer0) \<and> executeTrade s0 offer0 = Success s1 \<and>
            totalUnits s1 \<noteq> totalUnits s0)"
proof (intro conjI)
  let ?s1 = "updatePlayerAt i (tradeHand (offering offer) (requesting offer)) s"
  let ?s2 = "updatePlayerAt j (tradeHand (requesting offer) (offering offer)) ?s1"
  have run: "executeTrade s offer = Success ?s2"
    using i t j has by (rule executeTrade_success)
  have jlt: "j < length (players ?s1)"
    using findPlayerIndex_less [OF j] by simp
  have "resources (players ?s2 ! j) =
          addResources (subtractResources (resources (players s ! j)) (requesting offer)) (offering offer)"
    if "i \<noteq> j"
    using that jlt by (simp add: players_updatePlayerAt_nth players_updatePlayerAt_other tradeHand_def)
  with run show "\<exists>s'. executeTrade s offer = Success s' \<and>
            (i \<noteq> j \<longrightarrow> resources (players s' ! j) =
               addResources (subtractResources (resources (players s ! j)) (requesting offer))
                            (offering offer))"
    by blast
next
  show "\<forall>r a. requesting offer r = Some a \<and> 0 < a \<and> resources (players s ! j) r < a \<longrightarrow>
            subtractResources (resources (players s ! j)) (requesting offer) r = 0"
    by (simp add: subtractResources_clamps)
next
  let ?r = "executeTrade tradeDemoState tradeDemoOffer"
  have "?r = Success (sharedAfter ?r)"
    using tradeDemo_changes_total by (intro isSuccess_sharedAfter) simp
  moreover have "totalUnits (sharedAfter ?r) \<noteq> totalUnits tradeDemoState"
    using tradeDemo_changes_total by simp
  moreover have "truthy (toPlayerId tradeDemoOffer)"
    by code_simp
  ultimately show "\<exists>s0 offer0 s1. truthy (toPlayerId offer0) \<and> executeTrade s0 offer0 = Success s1 \<and>
            totalUnits s1 \<noteq> totalUnits s0"
    by blast
qed

theorem executeTrade_counterpart_unchecked_witness:
  "findPlayerIndex tradeDemoState (fromPlayerId tradeDemoOffer) = Some 0 \<and>
   toPlayerId tradeDemoOffer = Some ''p2'' \<and>
   findPlayerIndex tradeDemoState ''p2'' = Some 1 \<and>
   hasResources (resources (players tradeDemoState ! 0)) (offering tradeDemoOffer) \<and>
   \<not> hasResources (resources (players tradeDemoState ! 1)) (requesting tradeDemoOffer) \<and>
   (\<exists>s'. executeTrade tradeDemoState tradeDemoOffer = Success s' \<and>
         resources (players s' ! 1) Ore = 0 \<and> resources (players s' ! 1) Wood = 1)"
proof -
  have h1: "findPlayerIndex tradeDemoState (fromPlayerId tradeDemoOffer) = Some 0" by code_simp
  have h2: "toPlayerId tradeDemoOffer = Some ''p2''" by code_simp
  have h3: "''p2'' \<noteq> []" by simp
  have h4: "findPlayerIndex tradeDemoState ''p2'' = Some 1" by code_simp
  have h5: "hasResources (resources (players tradeDemoState ! 0)) (offering tradeDemoOffer)" by code_simp
  have h6: "\<not> hasResources (resources (players tradeDemoState ! 1)) (requesting tradeDemoOffer)" by code_simp
  from executeTrade_counterpart_unchecked [OF h1 h2 h3 h4 h5]
  obtain s' where run: "executeTrade tradeDemoState tradeDemoOffer = Success s'"
    and hand: "resources (players s' ! 1) =
                 addResources (subtractResources (resources (players tradeDemoState ! 1))
                                                 (requesting tradeDemoOffer)) (offering tradeDemoOffer)"
    by auto
  have "addResources (subtractResources (resources (players tradeDemoState ! 1))
          (requesting tradeDemoOffer)) (offering tradeDemoOffer) Ore = 0"
    by code_simp
  moreover have "addResources (subtractResources (resources (players tradeDemoState ! 1))
          (requesting tradeDemoOffer)) (offering tradeDemoOffer) Wood = 1"
    by code_simp
  ultimately show ?thesis using h1 h2 h4 h5 h6 run hand by simp
qed

section \<open>C5: bank trades\<close>

lemma set_named: "(r, a) \<in> set (named m) \<longleftrightarrow> m r = Some a \<and> a > 0"
  by (auto simp: named_def set_entries)

lemma distinct_named: "distinct (map fst (named m))"
  unfolding named_def by (rule distinct_map_filter) (rule distinct_entries)

lemma namedKinds_named: "namedKinds m = fst ` set (named m)"
proof (rule set_eqI)
  fix r
  show "r \<in> namedKinds m \<longleftrightarrow> r \<in> fst ` set (named m)"
  proof
    assume "r \<in> namedKinds m"
    then obtain a where "m r = Some a" "a > 0"
      by (auto simp: namedKinds_def namedAmount_def split: option.splits if_splits)
    then have "(r, a) \<in> set (named m)" by (simp add: set_named)
    then show "r \<in> fst ` set (named m)" by force
  next
    assume "r \<in> fst ` set (named m)"
    then obtain a where "(r, a) \<in> set (named m)" by auto
    then show "r \<in> namedKinds m"
      by (simp add: set_named namedKinds_def namedAmount_def)
  qed
qed

lemma named_single:
  "named m = [(r, a)] \<longleftrightarrow> namedKinds m = {r} \<and> namedAmount m r = a"
proof
  assume eq: "named m = [(r, a)]"
  then have "(r, a) \<in> set (named m)" by simp
  then have "m r = Some a" "a > 0" by (simp_all add: set_named)
  then show "namedKinds m = {r} \<and> namedAmount m r = a"
    using eq by (simp add: namedKinds_named namedAmount_def)
next
  assume h: "namedKinds m = {r} \<and> namedAmount m r = a"
  then have keys: "set (map fst (named m)) = {r}" by (simp add: namedKinds_named)
  have "card (set (map fst (named m))) = length (map fst (named m))"
    using distinct_named [of m] by (rule distinct_card)
  with keys have "length (named m) = 1" by simp
  then obtain e where e: "named m = [e]"
    by (cases "named m") auto
  obtain r' a' where e': "e = (r', a')" by (cases e)
  from keys e e' have "r' = r" by simp
  moreover from e e' have "(r', a') \<in> set (named m)" by simp
  then have "m r' = Some a'" "a' > 0" by (simp_all add: set_named)
  ultimately have "a' = a" using h by (simp add: namedAmount_def)
  with e e' \<open>r' = r\<close> show "named m = [(r, a)]" by simp
qed

lemma fold_min_generic:
  "\<forall>p \<in> set ps. ratio p = 3 \<Longrightarrow>
     fold (\<lambda>p best. min best (ratio p)) ps b = (if ps = [] then b else min b 3)"
  by (induction ps arbitrary: b) (auto simp: min_def)

lemma portAt_iff:
  "p \<in> set (portAt s i) \<longleftrightarrow> (\<exists>x. getIntersection s i = Some x \<and> port x = Some p)"
  by (cases "map_of (intersections (board s)) i")
     (auto simp: portAt_def getIntersection_def split: option.splits)

lemma getAccessiblePorts_portAt:
  "findPlayer s pid = Some player \<Longrightarrow>
     getAccessiblePorts s pid = concat (map (portAt s) (settlements player @ cities player))"
  by (simp add: getAccessiblePorts_def portAt_def [abs_def])

lemma set_getAccessiblePorts:
  assumes "findPlayer s pid = Some player"
  shows "p \<in> set (getAccessiblePorts s pid) \<longleftrightarrow>
           (\<exists>i \<in> set (settlements player @ cities player). \<exists>x.
                 getIntersection s i = Some x \<and> port x = Some p)"
  unfolding getAccessiblePorts_portAt [OF assms] by (auto simp: portAt_iff)

lemma hasPort_iff:
  assumes "findPlayer s pid = Some player"
  shows "hasPort s player pt \<longleftrightarrow> (\<exists>p \<in> set (getAccessiblePorts s pid). port_type p = pt)"
proof
  assume "hasPort s player pt"
  then obtain i where i: "i \<in> set (settlements player @ cities player)"
    and c: "(case getIntersection s i of None \<Rightarrow> False
             | Some x \<Rightarrow> (case port x of None \<Rightarrow> False | Some p \<Rightarrow> port_type p = pt))"
    unfolding hasPort_def list_ex_iff by blast
  from c obtain x p where "getIntersection s i = Some x" "port x = Some p" "port_type p = pt"
    by (auto split: option.splits)
  with i show "\<exists>p \<in> set (getAccessiblePorts s pid). port_type p = pt"
    using set_getAccessiblePorts [OF assms] by blast
next
  assume "\<exists>p \<in> set (getAccessiblePorts s pid). port_type p = pt"
  then obtain p i x where "i \<in> set (settlements player @ cities player)"
    "getIntersection s i = Some x" "port x = Some p" "port_type p = pt"
    using set_getAccessiblePorts [OF assms] by blast
  then show "hasPort s player pt"
    unfolding hasPort_def list_ex_iff by (intro bexI [of _ i]) simp_all
qed

lemma accessible_ratio:
  assumes "findPlayer s pid = Some player" "standardPorts s" "p \<in> set (getAccessiblePorts s pid)"
  shows "ratio p = (case port_type p of Generic \<Rightarrow> 3 | Specific r \<Rightarrow> 2)"
proof -
  from assms(3) obtain i x where "getIntersection s i = Some x" "port x = Some p"
    using set_getAccessiblePorts [OF assms(1)] by blast
  then have "x \<in> snd ` set (intersections (board s))"
    by (force simp: getIntersection_def dest: map_of_SomeD)
  with assms(2) \<open>port x = Some p\<close> show ?thesis
    by (auto simp: standardPorts_def list_all_iff)
qed

lemma getBestTradeRatio_standard:
  assumes fp: "findPlayer s pid = Some player" and std: "standardPorts s"
  shows "getBestTradeRatio (getAccessiblePorts s pid) r = requiredRatio s player r"
proof -
  let ?ps = "getAccessiblePorts s pid"
  have gen: "\<forall>p \<in> set (filter (\<lambda>p. port_type p = Generic) ?ps). ratio p = 3"
    using accessible_ratio [OF fp std] by auto
  have spec: "(case find (\<lambda>p. port_type p = Specific r) ?ps of None \<Rightarrow> 4 | Some sp \<Rightarrow> min 4 (ratio sp))
                = (if hasPort s player (Specific r) then 2 else 4)"
  proof (cases "find (\<lambda>p. port_type p = Specific r) ?ps")
    case None
    then have "\<not> hasPort s player (Specific r)"
      by (auto simp: hasPort_iff [OF fp] find_None_iff)
    then show ?thesis by (simp add: None)
  next
    case (Some sp)
    then have "sp \<in> set ?ps" "port_type sp = Specific r"
      by (auto simp: find_Some_iff)
    then have "hasPort s player (Specific r)" "ratio sp = 2"
      using accessible_ratio [OF fp std, of sp] by (auto simp: hasPort_iff [OF fp])
    then show ?thesis by (simp add: Some)
  qed
  have genex: "filter (\<lambda>p. port_type p = Generic) ?ps = [] \<longleftrightarrow> \<not> hasPort s player Generic"
    by (auto simp: hasPort_iff [OF fp] filter_empty_conv)
  show ?thesis
    unfolding getBestTradeRatio_def Let_def spec fold_min_generic [OF gen] requiredRatio_def
    using genex by (auto simp: min_def)
qed

lemma validateBankTrade_named:
  assumes "findPlayer s (fromPlayerId offer) = Some player"
    and "hasResources (resources player) (offering offer)"
  shows "validateBankTrade s offer = Valid \<longleftrightarrow>
           (\<exists>ro ao rr ar. named (offering offer) = [(ro, ao)] \<and> named (requesting offer) = [(rr, ar)] \<and>
              \<not> ao < getBestTradeRatio (getAccessiblePorts s (fromPlayerId offer)) ro * ar)"
  using assms
  by (auto simp: validateBankTrade_def Let_def named_def [symmetric] split: list.splits prod.splits)

text \<open>
  C5.  For a bank offer (no counterpart) of a player who holds what is offered, on a board
  whose ports carry the generated ratios, validation succeeds exactly when the offer names
  one offered kind and one requested kind and the offered amount is at least the required
  ratio times the requested amount; the required ratio is the minimum of 4, of 3 when the
  player has a building on a generic port and of 2 when the player has one on the specific
  port of the offered kind.
\<close>

theorem bank_trade_validation:
  assumes fp: "findPlayer s (fromPlayerId offer) = Some player"
    and bank: "\<not> truthy (toPlayerId offer)"
    and has: "hasResources (resources player) (offering offer)"
    and std: "standardPorts s"
  shows "validatePlayerTrade s offer = Valid \<longleftrightarrow>
           (\<exists>offered requested.
              namedKinds (offering offer) = {offered} \<and> namedKinds (requesting offer) = {requested} \<and>
              requiredRatio s player offered * namedAmount (requesting offer) requested
                \<le> namedAmount (offering offer) offered)"
proof -
  have "validatePlayerTrade s offer = validateBankTrade s offer"
    using fp bank has by (simp add: validatePlayerTrade_def)
  also have "\<dots> = Valid \<longleftrightarrow>
      (\<exists>ro ao rr ar. named (offering offer) = [(ro, ao)] \<and> named (requesting offer) = [(rr, ar)] \<and>
              \<not> ao < requiredRatio s player ro * ar)"
    unfolding validateBankTrade_named [OF fp has] getBestTradeRatio_standard [OF fp std] ..
  also have "\<dots> \<longleftrightarrow>
      (\<exists>offered requested.
              namedKinds (offering offer) = {offered} \<and> namedKinds (requesting offer) = {requested} \<and>
              requiredRatio s player offered * namedAmount (requesting offer) requested
                \<le> namedAmount (offering offer) offered)"
    unfolding named_single by (auto simp: not_less)
  finally show ?thesis .
qed

theorem bank_trade_validation_witness:
  "findPlayer bankDemoState (fromPlayerId bankDemoOffer) = Some (players bankDemoState ! 0) \<and>
   \<not> truthy (toPlayerId bankDemoOffer) \<and>
   hasResources (resources (players bankDemoState ! 0)) (offering bankDemoOffer) \<and>
   standardPorts bankDemoState \<and>
   validatePlayerTrade bankDemoState bankDemoOffer = Valid \<and>
   requiredRatio bankDemoState (players bankDemoState ! 0) Wood = 3 \<and>
   (\<exists>offered requested.
      namedKinds (offering bankDemoOffer) = {offered} \<and> namedKinds (requesting bankDemoOffer) = {requested} \<and>
      requiredRatio bankDemoState (players bankDemoState ! 0) offered * namedAmount (requesting bankDemoOffer) requested
        \<le> namedAmount (offering bankDemoOffer) offered)"
proof -
  have h1: "findPlayer bankDemoState (fromPlayerId bankDemoOffer) = Some (players bankDemoState ! 0)"
    by (simp add: bankDemoState_def bankDemoOffer_def findPlayer_def newPlayer_def)
  have h2: "\<not> truthy (toPlayerId bankDemoOffer)" by code_simp
  have h3: "hasResources (resources (players bankDemoState ! 0)) (offering bankDemoOffer)" by code_simp
  have h4: "standardPorts bankDemoState" by code_simp
  have v: "validatePlayerTrade bankDemoState bankDemoOffer = Valid" by code_simp
  have r: "requiredRatio bankDemoState (players bankDemoState ! 0) Wood = 3" by code_simp
  from bank_trade_validation [OF h1 h2 h3 h4] v h1 h2 h3 h4 r show ?thesis by simp
qed

section \<open>C7: production\<close>

lemma findPlayerIndex_SomeD:
  "findPlayerIndex s p = Some k \<Longrightarrow> k < length (players s) \<and> player_id (players s ! k) = p"
  unfolding findPlayerIndex_def by (drule findIndex_SomeD) simp

lemma findPlayerIndex_NoneD:
  "findPlayerIndex s p = None \<Longrightarrow> i < length (players s) \<Longrightarrow> player_id (players s ! i) \<noteq> p"
  unfolding findPlayerIndex_def findIndex_None_iff find_None_iff by auto

lemma distinct_ids_nth:
  "distinct (map player_id (players s)) \<Longrightarrow> i < length (players s) \<Longrightarrow> k < length (players s) \<Longrightarrow>
     player_id (players s ! i) = player_id (players s ! k) \<longleftrightarrow> i = k"
  using nth_eq_iff_index_eq [of "map player_id (players s)" i k] by simp

lemma credits_refl: "credits s s (\<lambda>i r. 0)"
  by (simp add: credits_def)

lemma credits_trans:
  "credits s s' f \<Longrightarrow> credits s' s'' g \<Longrightarrow> credits s s'' (\<lambda>i r. f i r + g i r)"
proof -
  assume a: "credits s s' f" and b: "credits s' s'' g"
  from a have len: "length (players s') = length (players s)"
    unfolding credits_def by (metis length_map)
  show ?thesis using a b len by (auto simp: credits_def)
qed

lemma credits_cong: "credits s s' f \<Longrightarrow> (\<And>i r. i < length (players s) \<Longrightarrow> f i r = g i r) \<Longrightarrow> credits s s' g"
  by (auto simp: credits_def)

lemma credits_ids: "credits s s' f \<Longrightarrow> map player_id (players s') = map player_id (players s)"
  by (simp add: credits_def)

lemma creditIntersection_credits:
  assumes d: "distinct (map player_id (players st))"
  shows "credits st (creditIntersection c rt x st)
           (\<lambda>i r. if r = rt then buildingCredit c (player_id (players st ! i)) x else 0)"
proof (cases "building x")
  case None
  then show ?thesis by (simp add: creditIntersection_def buildingCredit_def credits_def)
next
  case (Some b)
  show ?thesis
  proof (cases "isAdjacentTo x c")
    case False
    with Some show ?thesis by (simp add: creditIntersection_def buildingCredit_def credits_def)
  next
    case True
    show ?thesis
    proof (cases "findPlayerIndex st (building_playerId b)")
      case None
      have "building_playerId b \<noteq> player_id (players st ! i)" if "i < length (players st)" for i
        using findPlayerIndex_NoneD [OF None that] by simp
      then have zero: "buildingCredit c (player_id (players st ! i)) x = 0"
        if "i < length (players st)" for i
        using Some that by (simp add: buildingCredit_def)
      have "creditIntersection c rt x st = st"
        using Some True None by (simp add: creditIntersection_def)
      with zero show ?thesis
        by (simp add: credits_def)
    next
      case Some1: (Some k)
      from findPlayerIndex_SomeD [OF Some1] have k: "k < length (players st)"
        and kid: "player_id (players st ! k) = building_playerId b" by simp_all
      have other: "building_playerId b = player_id (players st ! i) \<longleftrightarrow> i = k"
        if "i < length (players st)" for i
        using distinct_ids_nth [OF d that k] kid by auto
      show ?thesis
        using Some True Some1 k other
        by (auto simp: creditIntersection_def buildingCredit_def credits_def updatePlayerAt_def
            map_update list_update_same_conv nth_list_update)
    qed
  qed
qed

lemma fold_creditIntersection_credits:
  "distinct (map player_id (players st)) \<Longrightarrow>
     credits st (fold (creditIntersection c rt) xs st)
       (\<lambda>i r. if r = rt then sum_list (map (buildingCredit c (player_id (players st ! i))) xs) else 0)"
proof (induction xs arbitrary: st)
  case Nil
  then show ?case by (simp add: credits_def)
next
  case (Cons x xs)
  let ?st1 = "creditIntersection c rt x st"
  have one: "credits st ?st1 (\<lambda>i r. if r = rt then buildingCredit c (player_id (players st ! i)) x else 0)"
    using Cons.prems by (rule creditIntersection_credits)
  then have ids: "map player_id (players ?st1) = map player_id (players st)" by (rule credits_ids)
  then have d1: "distinct (map player_id (players ?st1))" using Cons.prems by simp
  have idn: "player_id (players ?st1 ! i) = player_id (players st ! i)" if "i < length (players st)" for i
    using ids that by (metis length_map nth_map)
  from credits_trans [OF one Cons.IH [OF d1]]
  have "credits st (fold (creditIntersection c rt) (x # xs) st)
          (\<lambda>i r. (if r = rt then buildingCredit c (player_id (players st ! i)) x else 0) +
                  (if r = rt then sum_list (map (buildingCredit c (player_id (players ?st1 ! i))) xs) else 0))"
    by simp
  then show ?case
    by (rule credits_cong) (simp add: idn)
qed

lemma produceTile_credits:
  assumes d: "distinct (map player_id (players st))"
    and t: "map_of (tiles (board gs)) c = Some tile"
  shows "credits st (produceTile gs c st)
           (\<lambda>i r. if terrainToResource (terrain tile) = Some r
                   then sum_list (map (buildingCredit c (player_id (players st ! i)))
                                      (map snd (intersections (board gs))))
                   else 0)"
proof (cases "terrainToResource (terrain tile)")
  case None
  then have "terrain tile = Desert" by (cases "terrain tile") simp_all
  with t None show ?thesis by (simp add: produceTile_def credits_def)
next
  case (Some rt)
  then have "terrain tile \<noteq> Desert" by auto
  with t Some have "produceTile gs c st =
      fold (creditIntersection c rt) (map snd (intersections (board gs))) st"
    by (simp add: produceTile_def)
  with fold_creditIntersection_credits [OF d, of c rt "map snd (intersections (board gs))"] Some
  show ?thesis by (auto elim!: credits_cong)
qed

lemma fold_produceTile_credits:
  assumes look: "\<forall>t \<in> set ts. map_of (tiles (board gs)) (coordinate t) = Some t"
    and d: "distinct (map player_id (players st))"
  shows "credits st (fold (produceTile gs) (map coordinate (filter P ts)) st)
           (\<lambda>i r. sum_list (map (\<lambda>t. if P t \<and> terrainToResource (terrain t) = Some r
                 then sum_list (map (buildingCredit (coordinate t) (player_id (players st ! i)))
                                    (map snd (intersections (board gs))))
                 else 0) ts))"
  using look d
proof (induction ts arbitrary: st)
  case Nil
  then show ?case by (simp add: credits_def)
next
  case (Cons t ts)
  show ?case
  proof (cases "P t")
    case False
    with Cons show ?thesis by simp
  next
    case True
    let ?st1 = "produceTile gs (coordinate t) st"
    from Cons.prems(1) have lt: "map_of (tiles (board gs)) (coordinate t) = Some t" by simp
    have one: "credits st ?st1 (\<lambda>i r. if terrainToResource (terrain t) = Some r
                   then sum_list (map (buildingCredit (coordinate t) (player_id (players st ! i)))
                                      (map snd (intersections (board gs))))
                   else 0)"
      using Cons.prems(2) lt by (rule produceTile_credits)
    then have ids: "map player_id (players ?st1) = map player_id (players st)" by (rule credits_ids)
    then have d1: "distinct (map player_id (players ?st1))" using Cons.prems(2) by simp
    have idn: "player_id (players ?st1 ! i) = player_id (players st ! i)" if "i < length (players st)" for i
      using ids that by (metis length_map nth_map)
    have rest: "\<forall>t \<in> set ts. map_of (tiles (board gs)) (coordinate t) = Some t"
      using Cons.prems(1) by simp
    from credits_trans [OF one Cons.IH [OF rest d1]] True
    have "credits st (fold (produceTile gs) (map coordinate (filter P (t # ts))) st)
       (\<lambda>i r. (if terrainToResource (terrain t) = Some r
                   then sum_list (map (buildingCredit (coordinate t) (player_id (players st ! i)))
                                      (map snd (intersections (board gs))))
                   else 0) +
               sum_list (map (\<lambda>t. if P t \<and> terrainToResource (terrain t) = Some r
                 then sum_list (map (buildingCredit (coordinate t) (player_id (players ?st1 ! i)))
                                    (map snd (intersections (board gs))))
                 else 0) ts))"
      by simp
    then show ?thesis
      by (rule credits_cong) (simp add: idn True cong: if_cong)
  qed
qed

lemma keyed_lookup:
  assumes "tilesKeyedByCoordinate gs" "t \<in> set (map snd (tiles (board gs)))"
  shows "map_of (tiles (board gs)) (coordinate t) = Some t"
proof -
  from assms(2) obtain k where kt: "(k, t) \<in> set (tiles (board gs))" by auto
  with assms(1) have "coordinate t = k"
    by (auto simp: tilesKeyedByCoordinate_def list_all_iff)
  with kt assms(1) show ?thesis
    by (simp add: tilesKeyedByCoordinate_def)
qed

text \<open>
  C7.  On a board whose tiles are keyed by their coordinates and with players of distinct
  ids: \<open>distributeResources\<close> with sum 7 leaves the players as they are; with any other
  sum, every hand grows by exactly the production of the specification, in which a tile
  with the robber on it contributes nothing even if its disc matches, and every other
  matching tile credits 1 unit per adjacent settlement and 2 per adjacent city of its
  terrain's resource to the building's owner (the desert yields nothing).
\<close>

theorem distributeResources_production:
  assumes keyed: "tilesKeyedByCoordinate gs"
    and d: "distinct (map player_id (players gs))"
  shows "players (distributeResources gs 7) = players gs \<and>
         (diceSum \<noteq> 7 \<longrightarrow>
            (\<forall>i < length (players gs). \<forall>r.
               resources (players (distributeResources gs diceSum) ! i) r =
                 resources (players gs ! i) r + expectedProduction gs diceSum (player_id (players gs ! i)) r))"
proof
  show "players (distributeResources gs 7) = players gs"
    by (simp add: distributeResources_def resourceHandleSevenRolled_def)
next
  let ?P = "\<lambda>tile. numberDisc tile = Some diceSum \<and> \<not> hasRobber tile"
  have look: "\<forall>t \<in> set (map snd (tiles (board gs))). map_of (tiles (board gs)) (coordinate t) = Some t"
    using keyed_lookup [OF keyed] by blast
  have "credits gs (fold (produceTile gs) (map coordinate (filter ?P (map snd (tiles (board gs))))) gs)
           (\<lambda>i r. sum_list (map (\<lambda>t. if ?P t \<and> terrainToResource (terrain t) = Some r
                 then sum_list (map (buildingCredit (coordinate t) (player_id (players gs ! i)))
                                    (map snd (intersections (board gs))))
                 else 0) (map snd (tiles (board gs)))))"
    using look d by (rule fold_produceTile_credits)
  moreover have "expectedProduction gs diceSum p r =
      sum_list (map (\<lambda>t. if ?P t \<and> terrainToResource (terrain t) = Some r
                 then sum_list (map (buildingCredit (coordinate t) p)
                                    (map snd (intersections (board gs))))
                 else 0) (map snd (tiles (board gs))))" for p r
    unfolding expectedProduction_def tileProduction_def [abs_def] by (simp add: conj_assoc)
  ultimately show "diceSum \<noteq> 7 \<longrightarrow>
            (\<forall>i < length (players gs). \<forall>r.
               resources (players (distributeResources gs diceSum) ! i) r =
                 resources (players gs ! i) r + expectedProduction gs diceSum (player_id (players gs ! i)) r)"
    unfolding credits_def distributeResources_def producingTiles_def by simp
qed

theorem distributeResources_production_witness:
  "tilesKeyedByCoordinate productionDemoState \<and>
   distinct (map player_id (players productionDemoState)) \<and>
   players (distributeResources productionDemoState 7) = players productionDemoState \<and>
   resources (players (distributeResources productionDemoState 6) ! 0) Wood = 2 \<and>
   resources (players (distributeResources productionDemoState 6) ! 1) Wheat = 1 \<and>
   resources (players (distributeResources productionDemoState 6) ! 1) Wood = 0"
proof -
  have h1: "tilesKeyedByCoordinate productionDemoState" by code_simp
  have h2: "distinct (map player_id (players productionDemoState))" by code_simp
  have len: "0 < length (players productionDemoState)" "1 < length (players productionDemoState)"
    by code_simp+
  have e: "resources (players productionDemoState ! 0) Wood +
             expectedProduction productionDemoState 6 (player_id (players productionDemoState ! 0)) Wood = 2"
          "resources (players productionDemoState ! 1) Wheat +
             expectedProduction productionDemoState 6 (player_id (players productionDemoState ! 1)) Wheat = 1"
          "resources (players productionDemoState ! 1) Wood +
             expectedProduction productionDemoState 6 (player_id (players productionDemoState ! 1)) Wood = 0"
    by code_simp+
  from distributeResources_production [OF h1 h2, of 6] len e h1 h2 show ?thesis by simp
qed

end
